theory Spec2Isabelle
  imports Complex_Main
begin

section \<open>JavaScript values\<close>

text \<open>
  Values parsed from a response body or built by the client. A JavaScript number is a
  real here: no function below does arithmetic on one, so IEEE rounding plays no part.
  \<open>null\<close> and \<open>undefined\<close> held in a variable are both \<open>JNull\<close>; a
  missing property is \<open>None\<close> of \<open>js_prop\<close>.
\<close>

datatype json =
    JNull
  | JBool bool
  | JNum real
  | JStr string
  | JArr "json list"
  | JObj "(string \<times> json) list"

fun truthy :: "json \<Rightarrow> bool" where
  "truthy JNull = False"
| "truthy (JBool b) = b"
| "truthy (JNum n) = (n \<noteq> 0)"
| "truthy (JStr s) = (s \<noteq> [])"
| "truthy (JArr xs) = True"
| "truthy (JObj kvs) = True"

text \<open>\<open>v.k\<close> for a property name \<open>k\<close> that is no built-in of the value's prototype.\<close>

fun js_prop :: "json \<Rightarrow> string \<Rightarrow> json option" where
  "js_prop (JObj kvs) k = map_of kvs k"
| "js_prop v k = None"

text \<open>\<open>v.length\<close>: defined on arrays and strings, a plain property of an object.\<close>

fun js_length :: "json \<Rightarrow> json option" where
  "js_length (JArr xs) = Some (JNum (real (length xs)))"
| "js_length (JStr s) = Some (JNum (real (length s)))"
| "js_length (JObj kvs) = map_of kvs ''length''"
| "js_length v = None"

text \<open>\<open>String.prototype.includes\<close>.\<close>

fun starts_with :: "string \<Rightarrow> string \<Rightarrow> bool" where
  "starts_with s [] = True"
| "starts_with [] (c # cs) = False"
| "starts_with (d # ds) (c # cs) = (d = c \<and> starts_with ds cs)"

fun str_includes :: "string \<Rightarrow> string \<Rightarrow> bool" where
  "str_includes [] sub = (sub = [])"
| "str_includes (c # cs) sub = (starts_with (c # cs) sub \<or> str_includes cs sub)"

text \<open>A thrown value: \<open>error.name\<close>, \<open>error.message\<close>, \<open>error.constructor.name\<close>.\<close>

datatype js_error = Thrown (err_name: string) (err_message: string) (err_ctor: string)

definition new_Error :: "string \<Rightarrow> js_error" where
  "new_Error msg = Thrown ''Error'' msg ''Error''"

definition TypeError :: "string \<Rightarrow> js_error" where
  "TypeError msg = Thrown ''TypeError'' msg ''TypeError''"

section \<open>Configuration (config.js)\<close>

datatype environment = Development | Staging | Production

datatype operation = Search | Routes | General

fun operation_name :: "operation \<Rightarrow> string" where
  "operation_name Search = ''search''"
| "operation_name Routes = ''routes''"
| "operation_name General = ''general''"

fun environment_name :: "environment \<Rightarrow> string" where
  "environment_name Development = ''development''"
| "environment_name Staging = ''staging''"
| "environment_name Production = ''production''"

text \<open>
  The fields of \<open>CONFIG\<close> that the modelled functions read. \<open>RATE_LIMIT[type]\<close> is
  \<open>None\<close> where the object has no such key (the lookup yields \<open>undefined\<close>).
\<close>

record config =
  environment :: environment
  API_BASE_URL :: string
  DEBUG :: bool
  CACHE_DURATION :: nat
  REQUEST_TIMEOUT :: nat
  RATE_LIMIT :: "operation \<Rightarrow> nat option"

fun loadConfig :: "environment \<Rightarrow> config" where
  "loadConfig Development = \<lparr>
     environment = Development,
     API_BASE_URL = ''http://localhost:8088'',
     DEBUG = True,
     CACHE_DURATION = 5 * 60 * 1000,
     REQUEST_TIMEOUT = 10000,
     RATE_LIMIT = (\<lambda>t. case t of Search \<Rightarrow> Some 10 | Routes \<Rightarrow> Some 20 | General \<Rightarrow> None) \<rparr>"
| "loadConfig Staging = \<lparr>
     environment = Staging,
     API_BASE_URL = ''https://api-staging.travelmate.app'',
     DEBUG = True,
     CACHE_DURATION = 15 * 60 * 1000,
     REQUEST_TIMEOUT = 8000,
     RATE_LIMIT = (\<lambda>t. case t of Search \<Rightarrow> Some 15 | Routes \<Rightarrow> Some 30 | General \<Rightarrow> None) \<rparr>"
| "loadConfig Production = \<lparr>
     environment = Production,
     API_BASE_URL = ''https://api.travelmate.app'',
     DEBUG = False,
     CACHE_DURATION = 30 * 60 * 1000,
     REQUEST_TIMEOUT = 5000,
     RATE_LIMIT = (\<lambda>t. case t of Search \<Rightarrow> Some 20 | Routes \<Rightarrow> Some 50 | General \<Rightarrow> None) \<rparr>"

definition getEndpoint :: "config \<Rightarrow> string \<Rightarrow> string" where
  "getEndpoint cfg path =
     API_BASE_URL cfg @ (if starts_with path ''/'' then path else ''/'' @ path)"

definition getStorageKey :: "config \<Rightarrow> string \<Rightarrow> string" where
  "getStorageKey cfg key = ''travelmate_'' @ environment_name (environment cfg) @ ''_'' @ key"

section \<open>The browser and the application objects\<close>

text \<open>The object stored under a rate-limit key: \<open>{"count": c, "timestamp": t}\<close>.\<close>

record rate_data =
  count :: nat
  timestamp :: nat

text \<open>
  The entry \<open>ErrorHandler.handle\<close> builds, without the stack trace, the user agent and
  the page URL it also records; \<open>ei_timestamp\<close> is the instant of \<open>new Date()\<close> in
  milliseconds.
\<close>

record errorInfo =
  ei_timestamp :: nat
  ei_context :: string
  ei_message :: string
  ei_type :: string

text \<open>The \<open>data\<close> argument of \<open>APIClient.request\<close>.\<close>

datatype payload =
    Plain json
  | FormData "(string \<times> string) list"
  | URLSearchParams "(string \<times> string) list"

fun payload_truthy :: "payload \<Rightarrow> bool" where
  "payload_truthy (Plain j) = truthy j"
| "payload_truthy (FormData fd) = True"
| "payload_truthy (URLSearchParams ps) = True"

text \<open>What \<open>fetch\<close> is given as \<open>body\<close>.\<close>

datatype sent_body =
    NoBody
  | FormDataBody "(string \<times> string) list"
  | ParamsBody "(string \<times> string) list"
  | TextBody string

record http_request =
  req_url :: string
  req_method :: string
  req_headers :: "string \<rightharpoonup> string"
  req_body :: sent_body

text \<open>
  How a \<open>fetch\<close> ends on the network: the promise rejects with a \<open>TypeError\<close> of some
  message (the request could not be made or answered), or it resolves to a response with a
  status, a status text and a body that \<open>response.json()\<close> parses (\<open>None\<close>: it is no
  JSON).
\<close>

datatype fetch_outcome =
    NetworkError string
  | Response nat string "json option"

fun response_ok :: "nat \<Rightarrow> bool" where
  "response_ok status = (200 \<le> status \<and> status \<le> 299)"

text \<open>A layer of the map widget; a marker may carry \<open>placeData\<close>.\<close>

datatype layer_kind = Marker | Polyline

record layer =
  layer_id :: nat
  kind :: layer_kind
  placeData :: "json option"

record cache_entry =
  ce_data :: json
  ce_timestamp :: nat

datatype auth_mode = LoginMode | RegisterMode

text \<open>
  The text of a status message. \<open>RouteSummary mode routeData\<close> is the line
  \<open>calculateRealRoute\<close> prints for a drawn route, whose numbers \<open>Formatter\<close> formats.
\<close>

datatype message = Msg string | RouteSummary string json

text \<open>
  One record for everything the modelled code reads and writes: the fields of
  \<open>TravelMateApp\<close>, its \<open>ErrorHandler\<close>, \<open>APIClient\<close> and \<open>MapPlacesManager\<close>, then the
  browser: the clock behind \<open>Date.now()\<close>, \<open>localStorage\<close> (the token, the rate-limit
  objects by key, the stored error log), the layers on the map, the page elements the code
  styles, and the network. \<open>network k\<close> is the time the \<open>k\<close>-th \<open>fetch\<close> of the run takes
  and how it ends; \<open>netlog\<close> lists the requests issued so far. \<open>JSON_stringify\<close>,
  \<open>URLSearchParams_toString\<close> and \<open>js_String\<close> (the conversion of a value to a string,
  \<open>None\<close> being \<open>undefined\<close>) are the built-ins of those names, and
  \<open>js_greater_zero v\<close> is the comparison \<open>v > 0\<close> for a string, an array or an object
  \<open>v\<close>, which converts \<open>v\<close> to a number first. \<open>reloadRequested\<close> holds once
  \<open>window.location.reload()\<close> has been called: the browser replaces the document after the
  running script has returned.
\<close>

record world =
  currentUser :: json
  authToken :: json
  isAuthMode :: auth_mode
  markers :: "nat list"
  startPoint :: json
  endPoint :: json
  routeStartMarker :: "nat option"
  routeEndMarker :: "nat option"
  routeLine :: "nat option"
  errorLog :: "errorInfo list"
  cache :: "string \<rightharpoonup> cache_entry"
  addPlaceMode :: bool
  clock :: nat
  storedToken :: "string option"
  storedRateLimit :: "string \<rightharpoonup> rate_data"
  storedErrorLog :: "errorInfo list option"
  layers :: "layer list"
  nextLayer :: nat
  netlog :: "http_request list"
  network :: "nat \<Rightarrow> nat \<times> fetch_outcome"
  statusMessage :: "(message \<times> string) option"
  display :: "string \<Rightarrow> string"
  disabled :: "string \<Rightarrow> bool"
  sidebarOpen :: bool
  authModalActive :: bool
  reloadRequested :: bool
  JSON_stringify :: "payload \<Rightarrow> string"
  js_String :: "json option \<Rightarrow> string"
  js_greater_zero :: "json \<Rightarrow> bool"
  URLSearchParams_toString :: "(string \<times> json) list \<Rightarrow> string"

section \<open>Browser primitives\<close>

text \<open>
  \<open>await fetch(req)\<close>: the request is issued, and the caller resumes once the network has
  answered. \<open>fetch_nowait\<close> is a \<open>fetch\<close> whose caller does not wait for the answer.
  \<open>fetch_abortable\<close> is a \<open>fetch\<close> raced against the \<open>setTimeout\<close> that aborts it: an
  answer that takes the timeout or longer loses to the timer, and the promise rejects with
  an \<open>AbortError\<close> (\<open>None\<close>).
\<close>

definition fetch :: "http_request \<Rightarrow> world \<Rightarrow> fetch_outcome \<times> world" where
  "fetch req w =
     (let (dt, out) = network w (length (netlog w))
      in (out, w\<lparr>netlog := netlog w @ [req], clock := clock w + dt\<rparr>))"

definition fetch_nowait :: "http_request \<Rightarrow> world \<Rightarrow> world" where
  "fetch_nowait req w = w\<lparr>netlog := netlog w @ [req]\<rparr>"

definition fetch_abortable :: "nat \<Rightarrow> http_request \<Rightarrow> world \<Rightarrow> fetch_outcome option \<times> world" where
  "fetch_abortable timeout req w =
     (let (dt, out) = network w (length (netlog w));
          w' = w\<lparr>netlog := netlog w @ [req]\<rparr>
      in if timeout \<le> dt then (None, w'\<lparr>clock := clock w + timeout\<rparr>)
         else (Some out, w'\<lparr>clock := clock w + dt\<rparr>))"

text \<open>Time passing between two user actions.\<close>

definition elapse :: "nat \<Rightarrow> world \<Rightarrow> world" where
  "elapse d w = w\<lparr>clock := clock w + d\<rparr>"

text \<open>Decimal digits of a number, as a template string prints a status code.\<close>

fun digit_char :: "nat \<Rightarrow> char" where
  "digit_char n = ''0123456789'' ! n"

fun decimal :: "nat \<Rightarrow> string" where
  "decimal n = (if n < 10 then [digit_char n] else decimal (n div 10) @ [digit_char (n mod 10)])"

declare decimal.simps [simp del]

text \<open>\<open>String.prototype.toUpperCase\<close> on the ASCII letters a request method is made of.\<close>

fun upper_char :: "char \<Rightarrow> char" where
  "upper_char c =
     (if 97 \<le> (of_char c :: nat) \<and> (of_char c :: nat) \<le> 122 then char_of ((of_char c :: nat) - 32) else c)"

definition toUpperCase :: "string \<Rightarrow> string" where
  "toUpperCase s = map upper_char s"

section \<open>Rate limiting (Config.checkRateLimit)\<close>

definition rate_limit_key :: "config \<Rightarrow> operation \<Rightarrow> string" where
  "rate_limit_key cfg ty = getStorageKey cfg (''rate_limit_'' @ operation_name ty)"

text \<open>
  A count compared with a missing limit (\<open>data.count >= undefined\<close>) is false. The
  subtraction is JavaScript's, on integers.
\<close>

definition checkRateLimit :: "config \<Rightarrow> operation \<Rightarrow> world \<Rightarrow> bool \<times> world" where
  "checkRateLimit cfg ty w =
     (let key = rate_limit_key cfg ty;
          now = clock w;
          stored = (case storedRateLimit w key of
                      None \<Rightarrow> \<lparr>count = 0, timestamp = 0\<rparr>
                    | Some d \<Rightarrow> d);
          data = (if int now - int (timestamp stored) > 60000
                  then \<lparr>count = 0, timestamp = now\<rparr> else stored)
      in if (case RATE_LIMIT cfg ty of None \<Rightarrow> False | Some cap \<Rightarrow> cap \<le> count data)
         then (False, w)
         else (True, w\<lparr>storedRateLimit :=
                  (storedRateLimit w)(key \<mapsto> data\<lparr>count := count data + 1\<rparr>)\<rparr>))"

section \<open>ErrorHandler (map-places.js)\<close>

definition maxLogSize :: nat where
  "maxLogSize = 100"

definition showStatus :: "message \<Rightarrow> string \<Rightarrow> world \<Rightarrow> world" where
  "showStatus msg ty w = w\<lparr>statusMessage := Some (msg, ty)\<rparr>"

text \<open>
  \<open>unshift\<close>, then \<open>pop\<close> when the log is over its size, then the first ten to storage.
  Writes to \<open>localStorage\<close> are taken to succeed, here and elsewhere.
\<close>

definition ErrorHandler_log :: "errorInfo \<Rightarrow> world \<Rightarrow> world" where
  "ErrorHandler_log info w =
     (let unshifted = info # errorLog w;
          lg = (if length unshifted > maxLogSize then butlast unshifted else unshifted)
      in w\<lparr>errorLog := lg, storedErrorLog := Some (take 10 lg)\<rparr>)"

definition friendly_message :: "js_error \<Rightarrow> string \<Rightarrow> string" where
  "friendly_message error context =
     (if err_name error = ''TypeError'' \<and> str_includes (err_message error) ''fetch''
        then ''Network connection failed. Please check your internet connection.''
      else if str_includes (err_message error) ''timeout''
        then ''Request timed out. Please try again.''
      else if str_includes (err_message error) ''401''
        then ''Your session has expired. Please sign in again.''
      else if str_includes (err_message error) ''403''
        then ''You don't have permission to perform this action.''
      else if str_includes (err_message error) ''404''
        then ''The requested resource was not found.''
      else if str_includes (err_message error) ''500''
        then ''Server error. Please try again later.''
      else if context = ''Login failed''
        then ''Invalid email or password. Please try again.''
      else if context = ''Registration failed''
        then ''Registration failed. Please check your information and try again.''
      else if str_includes context ''Route''
        then ''Route operation failed. Please try again.''
      else if str_includes context ''Search''
        then ''Search failed. Please try again.''
      else ''An unexpected error occurred'')"

definition showUserFriendlyError :: "js_error \<Rightarrow> string \<Rightarrow> world \<Rightarrow> world" where
  "showUserFriendlyError error context w =
     showStatus (Msg (friendly_message error context)) ''error'' w"

definition errorInfo_json :: "errorInfo \<Rightarrow> json" where
  "errorInfo_json info = JObj
     [(''timestamp'', JNum (real (ei_timestamp info))),
      (''context'', JStr (ei_context info)),
      (''message'', JStr (ei_message info)),
      (''type'', JStr (ei_type info))]"

text \<open>\<open>reportError\<close> is called without \<open>await\<close> and swallows a failure of its \<open>fetch\<close>.\<close>

definition reportError :: "config \<Rightarrow> errorInfo \<Rightarrow> world \<Rightarrow> world" where
  "reportError cfg info w =
     fetch_nowait \<lparr>req_url = getEndpoint cfg ''/error-report'',
                   req_method = ''POST'',
                   req_headers = [''Content-Type'' \<mapsto> ''application/json''],
                   req_body = TextBody (JSON_stringify w (Plain (errorInfo_json info)))\<rparr> w"

text \<open>The \<open>errorInfo\<close> that \<open>handle\<close> builds: \<open>error.message || 'Unknown error'\<close>.\<close>

definition entry_of :: "js_error \<Rightarrow> string \<Rightarrow> world \<Rightarrow> errorInfo" where
  "entry_of error context w =
     \<lparr>ei_timestamp = clock w,
      ei_context = context,
      ei_message = (if err_message error = [] then ''Unknown error'' else err_message error),
      ei_type = err_ctor error\<rparr>"

definition handle :: "config \<Rightarrow> js_error \<Rightarrow> string \<Rightarrow> bool \<Rightarrow> world \<Rightarrow> world" where
  "handle cfg error context showToUser w =
     (let info = entry_of error context w;
          w1 = ErrorHandler_log info w;
          w2 = (if showToUser then showUserFriendlyError error context w1 else w1)
      in if environment cfg = Production then reportError cfg info w2 else w2)"

section \<open>APIClient (map-places.js)\<close>

definition getOperationType :: "string \<Rightarrow> operation" where
  "getOperationType endpoint =
     (if str_includes endpoint ''/locations/search'' then Search
      else if str_includes endpoint ''/routes'' then Routes
      else General)"

definition rate_limit_error :: "operation \<Rightarrow> js_error" where
  "rate_limit_error ty =
     new_Error (''Rate limit exceeded for '' @ operation_name ty @ ''. Please wait a moment.'')"

text \<open>A value inside a template string: a string as it is, anything else converted.\<close>

definition to_string :: "world \<Rightarrow> json option \<Rightarrow> string" where
  "to_string w v = (case v of Some (JStr s) \<Rightarrow> s | _ \<Rightarrow> js_String w v)"

text \<open>The headers and the body of the \<open>config\<close> object handed to \<open>fetch\<close>.\<close>

definition build_headers :: "string \<Rightarrow> payload \<Rightarrow> (string \<rightharpoonup> string) \<Rightarrow> world \<Rightarrow> (string \<rightharpoonup> string)" where
  "build_headers method data headers w =
     (let h0 = [''Content-Type'' \<mapsto> ''application/json''] ++ headers;
          h1 = (if truthy (authToken w)
                then h0(''Authorization'' \<mapsto> ''Bearer '' @ to_string w (Some (authToken w))) else h0)
      in if payload_truthy data \<and> method \<noteq> ''GET''
         then (case data of FormData fd \<Rightarrow> h1(''Content-Type'' := None) | _ \<Rightarrow> h1)
         else h1)"

definition build_body :: "string \<Rightarrow> payload \<Rightarrow> world \<Rightarrow> sent_body" where
  "build_body method data w =
     (if payload_truthy data \<and> method \<noteq> ''GET''
      then (case data of
              FormData fd \<Rightarrow> FormDataBody fd
            | URLSearchParams ps \<Rightarrow> ParamsBody ps
            | Plain j \<Rightarrow> TextBody (JSON_stringify w data))
      else NoBody)"

text \<open>The request given to \<open>fetch\<close>: the endpoint's URL and the \<open>config\<close> object.\<close>

definition request_of :: "config \<Rightarrow> string \<Rightarrow> string \<Rightarrow> payload \<Rightarrow> (string \<rightharpoonup> string) \<Rightarrow> world
                          \<Rightarrow> http_request" where
  "request_of cfg method endpoint data headers w =
     \<lparr>req_url = getEndpoint cfg endpoint,
      req_method = toUpperCase method,
      req_headers = build_headers method data headers w,
      req_body = build_body method data w\<rparr>"

definition cacheKey :: "config \<Rightarrow> string \<Rightarrow> string \<Rightarrow> payload \<Rightarrow> world \<Rightarrow> string" where
  "cacheKey cfg method endpoint data w =
     method @ '':'' @ getEndpoint cfg endpoint @ '':'' @ JSON_stringify w data"

text \<open>
  The \<open>try\<close> block of \<open>request\<close> with its \<open>catch\<close>: the network call and what follows
  it. The \<open>catch\<close> turns an \<open>AbortError\<close> into \<open>Request timeout\<close> and rethrows anything
  else.
\<close>

definition send :: "config \<Rightarrow> string \<Rightarrow> string \<Rightarrow> payload \<Rightarrow> (string \<rightharpoonup> string) \<Rightarrow> world
                    \<Rightarrow> (js_error + json) \<times> world" where
  "send cfg method endpoint data headers w =
     (let req = request_of cfg method endpoint data headers w;
          (out, w1) = fetch_abortable (REQUEST_TIMEOUT cfg) req w
      in case out of
           None \<Rightarrow> (Inl (new_Error ''Request timeout''), w1)
         | Some (NetworkError msg) \<Rightarrow> (Inl (TypeError msg), w1)
         | Some (Response status statusText body) \<Rightarrow>
             (if \<not> response_ok status
              then (Inl (new_Error (''HTTP '' @ decimal status @ '': '' @ statusText)), w1)
              else (case body of
                      None \<Rightarrow> (Inl (Thrown ''SyntaxError'' ''Unexpected token'' ''SyntaxError''), w1)
                    | Some result \<Rightarrow>
                        (Inr result,
                         if method = ''GET''
                         then w1\<lparr>cache := (cache w1)(cacheKey cfg method endpoint data w
                                    \<mapsto> \<lparr>ce_data = result, ce_timestamp = clock w1\<rparr>)\<rparr>
                         else w1))))"

definition request :: "config \<Rightarrow> string \<Rightarrow> string \<Rightarrow> payload \<Rightarrow> (string \<rightharpoonup> string) \<Rightarrow> world
                       \<Rightarrow> (js_error + json) \<times> world" where
  "request cfg method endpoint data headers w =
     (let operationType = getOperationType endpoint;
          (allowed, w1) = checkRateLimit cfg operationType w
      in if \<not> allowed then (Inl (rate_limit_error operationType), w1)
         else
           (case (if method = ''GET'' then cache w1 (cacheKey cfg method endpoint data w1) else None) of
              Some cached \<Rightarrow>
                (if int (clock w1) - int (ce_timestamp cached) < int (CACHE_DURATION cfg)
                 then (Inr (ce_data cached), w1)
                 else send cfg method endpoint data headers w1)
            | None \<Rightarrow> send cfg method endpoint data headers w1))"

definition get_url :: "world \<Rightarrow> string \<Rightarrow> (string \<times> json) list \<Rightarrow> string" where
  "get_url w endpoint params =
     (let query = URLSearchParams_toString w params
      in if query \<noteq> [] then endpoint @ ''?'' @ query else endpoint)"

definition api_get :: "config \<Rightarrow> string \<Rightarrow> (string \<times> json) list \<Rightarrow> world \<Rightarrow> (js_error + json) \<times> world" where
  "api_get cfg endpoint params w = request cfg ''GET'' (get_url w endpoint params) (Plain JNull) Map.empty w"

definition api_post :: "config \<Rightarrow> string \<Rightarrow> payload \<Rightarrow> (string \<rightharpoonup> string) \<Rightarrow> world
                        \<Rightarrow> (js_error + json) \<times> world" where
  "api_post cfg endpoint data headers w = request cfg ''POST'' endpoint data headers w"

definition api_put :: "config \<Rightarrow> string \<Rightarrow> payload \<Rightarrow> world \<Rightarrow> (js_error + json) \<times> world" where
  "api_put cfg endpoint data w = request cfg ''PUT'' endpoint data Map.empty w"

definition api_delete :: "config \<Rightarrow> string \<Rightarrow> world \<Rightarrow> (js_error + json) \<times> world" where
  "api_delete cfg endpoint w = request cfg ''DELETE'' endpoint (Plain JNull) Map.empty w"

section \<open>The map widget\<close>

text \<open>
  \<open>L.marker(...).addTo(map)\<close> and \<open>L.polyline(...).addTo(map)\<close> put a fresh layer on the
  map; \<open>map.removeLayer\<close> takes a layer off and does nothing for one that is not on it.
  \<open>L.marker([place.latitude, place.longitude])\<close> throws the widget's \<open>Error\<close>
  \<open>Invalid LatLng object\<close> for a latitude or longitude that it cannot take as a number,
  before any marker is on the map; here these are the coordinates that are missing or are
  no numbers. The other calls of the widget are taken to succeed.
\<close>

definition addLayer :: "layer_kind \<Rightarrow> json option \<Rightarrow> world \<Rightarrow> nat \<times> world" where
  "addLayer k pd w =
     (nextLayer w,
      w\<lparr>layers := layers w @ [\<lparr>layer_id = nextLayer w, kind = k, placeData = pd\<rparr>],
        nextLayer := nextLayer w + 1\<rparr>)"

definition removeLayer :: "nat \<Rightarrow> world \<Rightarrow> world" where
  "removeLayer i w = w\<lparr>layers := filter (\<lambda>l. layer_id l \<noteq> i) (layers w)\<rparr>"


definition is_number :: "json option \<Rightarrow> bool" where
  "is_number v = (case v of Some (JNum n) \<Rightarrow> True | _ \<Rightarrow> False)"

definition LatLng_throws :: "json \<Rightarrow> bool" where
  "LatLng_throws place =
     (\<not> is_number (js_prop place ''latitude'') \<or> \<not> is_number (js_prop place ''longitude''))"

section \<open>MapPlacesManager\<close>

text \<open>
  \<open>v.length > 0\<close>: the comparison converts the length to a number. A length that is
  missing, \<open>null\<close> or \<open>false\<close> is not greater than zero, \<open>true\<close> is, and a
  string, an array or an object is as the built-in conversion has it. \<open>first_elem\<close> is
  \<open>v[0]\<close>.
\<close>

definition positive_length :: "world \<Rightarrow> json \<Rightarrow> bool" where
  "positive_length w v =
     (case js_length v of
        None \<Rightarrow> False
      | Some JNull \<Rightarrow> False
      | Some (JBool b) \<Rightarrow> b
      | Some (JNum n) \<Rightarrow> 0 < n
      | Some l \<Rightarrow> js_greater_zero w l)"

fun first_elem :: "json \<Rightarrow> json option" where
  "first_elem (JArr (x # xs)) = Some x"
| "first_elem (JStr (c # cs)) = Some (JStr [c])"
| "first_elem (JObj kvs) = map_of kvs ''0''"
| "first_elem v = None"

text \<open>
  \<open>place.images && place.images.length > 0 && place.images[0].image_url\<close> throws a
  \<open>TypeError\<close> when the first image is \<open>null\<close> or missing.
\<close>

definition hasImage_throws :: "world \<Rightarrow> json \<Rightarrow> bool" where
  "hasImage_throws w place =
     (case js_prop place ''images'' of
        None \<Rightarrow> False
      | Some imgs \<Rightarrow> truthy imgs \<and> positive_length w imgs
                     \<and> (first_elem imgs = None \<or> first_elem imgs = Some JNull))"

text \<open>
  \<open>addPlaceMarker\<close>: reading \<open>place.category\<close> throws on \<open>null\<close>, and \<open>L.marker\<close>
  throws on coordinates that are no numbers, both before a marker is on the map. Then the
  marker is put on the map, the popup is built, and \<open>placeData\<close> is set on the marker
  last: a throw while building the popup leaves a marker without \<open>placeData\<close>.
\<close>

definition addPlaceMarker :: "json \<Rightarrow> world \<Rightarrow> (js_error + nat) \<times> world" where
  "addPlaceMarker place w =
     (if place = JNull then (Inl (TypeError ''Cannot read properties of null''), w)
      else if LatLng_throws place then (Inl (new_Error ''Invalid LatLng object''), w)
      else if hasImage_throws w place
        then (Inl (TypeError ''Cannot read properties of null''), snd (addLayer Marker None w))
      else (let (m, w1) = addLayer Marker (Some place) w in (Inr m, w1)))"

text \<open>\<open>places.forEach(place => this.addPlaceMarker(place))\<close>: a throw ends the loop.\<close>

fun addPlaceMarkers :: "json list \<Rightarrow> world \<Rightarrow> (js_error + unit) \<times> world" where
  "addPlaceMarkers [] w = (Inr (), w)"
| "addPlaceMarkers (p # ps) w =
     (case addPlaceMarker p w of
        (Inl e, w1) \<Rightarrow> (Inl e, w1)
      | (Inr m, w1) \<Rightarrow> addPlaceMarkers ps w1)"

definition is_place_marker :: "layer \<Rightarrow> bool" where
  "is_place_marker l =
     (kind l = Marker \<and> (case placeData l of None \<Rightarrow> False | Some pd \<Rightarrow> truthy pd))"

definition clearPlaceMarkers :: "world \<Rightarrow> world" where
  "clearPlaceMarkers w = w\<lparr>layers := filter (\<lambda>l. \<not> is_place_marker l) (layers w)\<rparr>"

definition bearer :: "world \<Rightarrow> string" where
  "bearer w = ''Bearer '' @ (case storedToken w of None \<Rightarrow> ''null'' | Some t \<Rightarrow> t)"

text \<open>
  \<open>loadUserPlaces\<close> calls \<open>fetch\<close> itself. Every failure inside its \<open>try\<close> (a rejected
  fetch, a response that is not ok, a body that is no JSON, a value without \<open>forEach\<close>, a
  throw while adding a marker) ends in the \<open>catch\<close>, which only logs.
\<close>

definition loadUserPlaces :: "config \<Rightarrow> world \<Rightarrow> world" where
  "loadUserPlaces cfg w =
     (if \<not> truthy (currentUser w) then w
      else
        let req = \<lparr>req_url = API_BASE_URL cfg @ ''/profile/places'',
                   req_method = ''GET'',
                   req_headers = [''Authorization'' \<mapsto> bearer w],
                   req_body = NoBody\<rparr>;
            (out, w1) = fetch req w
        in case out of
             NetworkError msg \<Rightarrow> w1
           | Response status statusText body \<Rightarrow>
               (if \<not> response_ok status then w1
                else (case body of
                        None \<Rightarrow> w1
                      | Some places \<Rightarrow>
                          (let w2 = clearPlaceMarkers w1
                           in case places of
                                JArr ps \<Rightarrow> snd (addPlaceMarkers ps w2)
                              | _ \<Rightarrow> w2))))"






text \<open>
  \<open>MapPlacesManager\<close> defines no method \<open>hideStatusMessage\<close>, so the call
  \<open>this.hideStatusMessage()\<close> at the end of the add-place branch of \<open>disableControls\<close>
  throws a \<open>TypeError\<close>, after \<open>addPlaceMode\<close> has been set to false. The cursor and the
  click handler that the branch also resets are not part of \<open>world\<close>.
\<close>

definition placesManager_disableControls :: "world \<Rightarrow> (js_error + unit) \<times> world" where
  "placesManager_disableControls w =
     (let w1 = w\<lparr>disabled := (disabled w)(''addPlaceModeBtn'' := True)\<rparr>
      in if addPlaceMode w1
         then (Inl (TypeError ''this.hideStatusMessage is not a function''), w1\<lparr>addPlaceMode := False\<rparr>)
         else (Inr (), w1))"

definition placesManager_enableControls :: "world \<Rightarrow> world" where
  "placesManager_enableControls w =
     (if truthy (currentUser w) then w\<lparr>disabled := (disabled w)(''addPlaceModeBtn'' := False)\<rparr> else w)"

section \<open>TravelMateApp\<close>

text \<open>
  The page is taken to hold every element the code looks up by id, so that no
  \<open>getElementById\<close> yields \<open>null\<close>; \<open>display\<close> and \<open>disabled\<close> give the
  \<open>style.display\<close> and the \<open>disabled\<close> flag of an element by its id (the two button
  groups of \<open>querySelectorAll\<close> by their selector). Text contents, CSS classes and timers
  are not part of \<open>world\<close>.
\<close>

definition controls :: "string list" where
  "controls = [''searchInput'', ''transportMode'', ''routeName'', ''routeDescription'',
               ''realRouteBtn'', ''createRouteBtn'']"

definition buttons :: "string list" where
  "buttons = [''[onclick*=searchPlace]'', ''[onclick*=loadRoutes]'']"

definition set_disabled :: "string list \<Rightarrow> bool \<Rightarrow> world \<Rightarrow> world" where
  "set_disabled ids b w = w\<lparr>disabled := (\<lambda>i. if i \<in> set ids then b else disabled w i)\<rparr>"

definition enableControls :: "world \<Rightarrow> world" where
  "enableControls w = placesManager_enableControls (set_disabled buttons False (set_disabled controls False w))"

definition disableControls :: "world \<Rightarrow> (js_error + unit) \<times> world" where
  "disableControls w = placesManager_disableControls (set_disabled buttons True (set_disabled controls True w))"

definition toggleSidebar :: "bool \<Rightarrow> world \<Rightarrow> world" where
  "toggleSidebar forceOpen w =
     (if forceOpen \<or> \<not> sidebarOpen w then w\<lparr>sidebarOpen := True\<rparr> else w\<lparr>sidebarOpen := False\<rparr>)"

definition showAuthModal :: "auth_mode \<Rightarrow> world \<Rightarrow> world" where
  "showAuthModal mode w = w\<lparr>isAuthMode := mode, authModalActive := True\<rparr>"

definition closeAuthModal :: "world \<Rightarrow> world" where
  "closeAuthModal w =
     (if \<not> authModalActive w then w else w\<lparr>authModalActive := False, isAuthMode := LoginMode\<rparr>)"

definition toggleAuthMode :: "world \<Rightarrow> world" where
  "toggleAuthMode w =
     (let mode = (if isAuthMode w = LoginMode then RegisterMode else LoginMode)
      in showAuthModal mode (w\<lparr>isAuthMode := mode\<rparr>))"


text \<open>
  \<open>setAuthenticatedUser\<close>: \<open>user.name\<close> throws on \<open>null\<close>, after the user has been stored
  and three elements restyled. \<open>loadUserPlaces\<close> is started without \<open>await\<close>; its
  continuation touches only the map layers, and is run here at once.
\<close>

definition setAuthenticatedUser :: "config \<Rightarrow> json \<Rightarrow> world \<Rightarrow> (js_error + unit) \<times> world" where
  "setAuthenticatedUser cfg user w =
     (let w1 = w\<lparr>currentUser := user,
                 display := (display w)(''loginBtn'' := ''none'', ''registerBtn'' := ''none'',
                                        ''userMenu'' := ''flex'')\<rparr>
      in if user = JNull then (Inl (TypeError ''Cannot read properties of null (reading 'name')''), w1)
         else
           let w2 = w1\<lparr>display := (display w1)(''guestBanner'' := ''none'')\<rparr>;
               w3 = enableControls w2;
               w4 = loadUserPlaces cfg w3
           in (Inr (), toggleSidebar True w4))"

definition showGuestMode :: "world \<Rightarrow> (js_error + unit) \<times> world" where
  "showGuestMode w =
     disableControls
       (w\<lparr>currentUser := JNull,
          authToken := JNull,
          display := (display w)(''loginBtn'' := ''inline-flex'', ''registerBtn'' := ''inline-flex'',
                                 ''userMenu'' := ''none'', ''guestBanner'' := ''block'')\<rparr>)"






definition validateToken :: "config \<Rightarrow> world \<Rightarrow> (js_error + unit) \<times> world" where
  "validateToken cfg w =
     (case api_get cfg ''/auth/me'' [] w of
        (Inl e, w1) \<Rightarrow> showGuestMode (w1\<lparr>storedToken := None\<rparr>)
      | (Inr response, w1) \<Rightarrow>
          (case setAuthenticatedUser cfg response w1 of
             (Inl e, w2) \<Rightarrow> showGuestMode (w2\<lparr>storedToken := None\<rparr>)
           | (Inr u, w2) \<Rightarrow> (Inr (), w2)))"

text \<open>\<open>localStorage.getItem('token')\<close> is a string or \<open>null\<close>.\<close>

definition checkAuthStatus :: "config \<Rightarrow> world \<Rightarrow> (js_error + unit) \<times> world" where
  "checkAuthStatus cfg w =
     (let w1 = w\<lparr>authToken := (case storedToken w of None \<Rightarrow> JNull | Some t \<Rightarrow> JStr t)\<rparr>
      in case (if truthy (authToken w1) then validateToken cfg w1 else showGuestMode w1) of
           (Inl e, w2) \<Rightarrow> showGuestMode w2
         | (Inr u, w2) \<Rightarrow> (Inr (), w2))"

subsection \<open>Validation helpers\<close>

text \<open>
  A regular expression over characters, matched against a whole string (the pattern is
  anchored by \<open>^\<close> and \<open>$\<close>) by derivatives. Characters are the 8-bit ones of
  \<open>string\<close>; of the characters \<open>\s\<close> and \<open>trim\<close> treat as white space, these are the
  ones below U+0100.
\<close>

datatype regex =
    Zero
  | One
  | Atom "char \<Rightarrow> bool"
  | Alt regex regex
  | Seq regex regex
  | Star regex

definition Plus :: "regex \<Rightarrow> regex" where
  "Plus r = Seq r (Star r)"

fun nullable :: "regex \<Rightarrow> bool" where
  "nullable Zero = False"
| "nullable One = True"
| "nullable (Atom P) = False"
| "nullable (Alt r s) = (nullable r \<or> nullable s)"
| "nullable (Seq r s) = (nullable r \<and> nullable s)"
| "nullable (Star r) = True"

fun deriv :: "char \<Rightarrow> regex \<Rightarrow> regex" where
  "deriv c Zero = Zero"
| "deriv c One = Zero"
| "deriv c (Atom P) = (if P c then One else Zero)"
| "deriv c (Alt r s) = Alt (deriv c r) (deriv c s)"
| "deriv c (Seq r s) =
     (if nullable r then Alt (Seq (deriv c r) s) (deriv c s) else Seq (deriv c r) s)"
| "deriv c (Star r) = Seq (deriv c r) (Star r)"

definition regex_test :: "regex \<Rightarrow> string \<Rightarrow> bool" where
  "regex_test r s = nullable (foldl (\<lambda>q c. deriv c q) r s)"

definition is_space :: "char \<Rightarrow> bool" where
  "is_space c = ((of_char c :: nat) \<in> {9, 10, 11, 12, 13, 32, 160})"

definition not_space_at :: "char \<Rightarrow> bool" where
  "not_space_at c = (\<not> is_space c \<and> c \<noteq> CHR ''@'')"

definition emailRegex :: regex where
  "emailRegex =
     Seq (Plus (Atom not_space_at))
       (Seq (Atom (\<lambda>c. c = CHR ''@''))
          (Seq (Plus (Atom not_space_at))
             (Seq (Atom (\<lambda>c. c = CHR ''.'')) (Plus (Atom not_space_at)))))"

definition validateEmail :: "string \<Rightarrow> bool" where
  "validateEmail email = regex_test emailRegex email"

definition validatePassword :: "string \<Rightarrow> bool" where
  "validatePassword password = (password \<noteq> [] \<and> 6 \<le> length password)"

definition trim :: "string \<Rightarrow> string" where
  "trim s = rev (dropWhile is_space (rev (dropWhile is_space s)))"

subsection \<open>Authentication handlers\<close>

text \<open>
  The arguments are the values of the form fields as the user left them. Reading
  \<open>response.access_token\<close> throws on \<open>null\<close>; \<open>localStorage.setItem\<close> stores the
  string conversion of what was read.
\<close>

definition handleLogin :: "config \<Rightarrow> string \<Rightarrow> string \<Rightarrow> world \<Rightarrow> world" where
  "handleLogin cfg loginEmail loginPassword w =
     (let email = trim loginEmail;
          password = loginPassword
      in if \<not> validateEmail email
           then showStatus (Msg ''Please enter a valid email address'') ''error'' w
         else if password = []
           then showStatus (Msg ''Password is required'') ''error'' w
         else
           let w1 = showStatus (Msg ''Signing in...'') ''info'' w;
               params = URLSearchParams [(''username'', email), (''password'', password)]
           in case api_post cfg ''/auth/login'' params
                     [''Content-Type'' \<mapsto> ''application/x-www-form-urlencoded''] w1 of
                (Inl e, w2) \<Rightarrow> handle cfg e ''Login failed'' True w2
              | (Inr response, w2) \<Rightarrow>
                  (if response = JNull
                   then handle cfg (TypeError ''Cannot read properties of null (reading 'access_token')'')
                          ''Login failed'' True w2
                   else
                     let tok = js_prop response ''access_token'';
                         w3 = w2\<lparr>authToken := (case tok of None \<Rightarrow> JNull | Some t \<Rightarrow> t),
                                 storedToken := Some (to_string w2 tok)\<rparr>
                     in case api_get cfg ''/auth/me'' [] w3 of
                          (Inl e, w4) \<Rightarrow> handle cfg e ''Login failed'' True w4
                        | (Inr userResponse, w4) \<Rightarrow>
                            (case setAuthenticatedUser cfg userResponse w4 of
                               (Inl e, w5) \<Rightarrow> handle cfg e ''Login failed'' True w5
                             | (Inr u, w5) \<Rightarrow>
                                 showStatus (Msg ''Welcome back!'') ''success'' (closeAuthModal w5))))"

definition handleRegister :: "config \<Rightarrow> string \<Rightarrow> string \<Rightarrow> string \<Rightarrow> world \<Rightarrow> world" where
  "handleRegister cfg registerName registerEmail registerPassword w =
     (let name = trim registerName;
          email = trim registerEmail;
          password = registerPassword
      in if name = [] \<or> length name < 2
           then showStatus (Msg ''Name must be at least 2 characters long'') ''error'' w
         else if \<not> validateEmail email
           then showStatus (Msg ''Please enter a valid email address'') ''error'' w
         else if \<not> validatePassword password
           then showStatus (Msg ''Password must be at least 6 characters long'') ''error'' w
         else
           let w1 = showStatus (Msg ''Creating account...'') ''info'' w;
               body = Plain (JObj [(''name'', JStr name), (''email'', JStr email),
                                   (''password'', JStr password)])
           in case api_post cfg ''/auth/register'' body Map.empty w1 of
                (Inl e, w2) \<Rightarrow> handle cfg e ''Registration failed'' True w2
              | (Inr response, w2) \<Rightarrow>
                  toggleAuthMode
                    (showStatus (Msg ''Account created successfully! Please sign in.'') ''success'' w2))"

section \<open>Route calculation (features.js)\<close>

definition point_incomplete :: "json \<Rightarrow> bool" where
  "point_incomplete p = (js_prop p ''latitude'' = None \<or> js_prop p ''longitude'' = None)"

definition field :: "json \<Rightarrow> string \<Rightarrow> json" where
  "field v k = (case js_prop v k of None \<Rightarrow> JNull | Some x \<Rightarrow> x)"

text \<open>
  \<open>routeData.geometry && routeData.geometry.coordinates &&
  routeData.geometry.coordinates.length > 0\<close>: the coordinates when the test holds.
\<close>

definition route_coordinates :: "world \<Rightarrow> json \<Rightarrow> json option" where
  "route_coordinates w routeData =
     (case js_prop routeData ''geometry'' of
        None \<Rightarrow> None
      | Some g \<Rightarrow>
          (if \<not> truthy g then None
           else (case js_prop g ''coordinates'' of
                   None \<Rightarrow> None
                 | Some c \<Rightarrow> if truthy c \<and> positive_length w c then Some c else None)))"

text \<open>\<open>coordinates.map(coord => [coord[1], coord[0]])\<close> throws a \<open>TypeError\<close> on a value
  that is no array and on a \<open>null\<close> element.\<close>

definition swap_throws :: "json \<Rightarrow> bool" where
  "swap_throws c = (case c of JArr xs \<Rightarrow> JNull \<in> set xs | _ \<Rightarrow> True)"

definition dropRouteLine :: "world \<Rightarrow> world" where
  "dropRouteLine w =
     (case routeLine w of None \<Rightarrow> w | Some i \<Rightarrow> (removeLayer i w)\<lparr>routeLine := None\<rparr>)"

definition route_failed :: "config \<Rightarrow> js_error \<Rightarrow> world \<Rightarrow> world" where
  "route_failed cfg error w = dropRouteLine (handle cfg error ''Route calculation failed'' True w)"

text \<open>
  \<open>transportModeValue\<close> is the value of the \<open>transportMode\<close> select. The branch that draws
  the route is modelled for a \<open>routeData\<close> whose distance and duration are numbers, which
  \<open>Formatter\<close> formats without throwing.
\<close>

definition effective_mode :: "string \<Rightarrow> string" where
  "effective_mode transportModeValue = (if transportModeValue = [] then ''driving'' else transportModeValue)"

text \<open>The status line and the call to the backend that open the \<open>try\<close> block.\<close>

definition route_request :: "config \<Rightarrow> string \<Rightarrow> world \<Rightarrow> (js_error + json) \<times> world" where
  "route_request cfg transportModeValue w =
     (let sp = startPoint w; ep = endPoint w;
          transportMode = effective_mode transportModeValue;
          w1 = showStatus (Msg (''Calculating '' @ transportMode @ '' route...'')) ''info'' w
      in api_get cfg ''/routes/real-route''
           [(''start_lat'', field sp ''latitude''), (''start_lon'', field sp ''longitude''),
            (''end_lat'', field ep ''latitude''), (''end_lon'', field ep ''longitude''),
            (''profile'', JStr transportMode)] w1)"

definition calculateRealRoute :: "config \<Rightarrow> string \<Rightarrow> world \<Rightarrow> world" where
  "calculateRealRoute cfg transportModeValue w =
     (if \<not> truthy (currentUser w) then showAuthModal LoginMode w
      else
        let sp = startPoint w; ep = endPoint w
        in if \<not> truthy sp \<or> \<not> truthy ep \<or> point_incomplete sp \<or> point_incomplete ep
           then showStatus (Msg ''Please set both start and end points first'') ''error'' w
           else
             (case route_request cfg transportModeValue w of
                (Inl e, w2) \<Rightarrow> route_failed cfg e w2
              | (Inr routeData, w2) \<Rightarrow>
                  (if \<not> truthy routeData \<or> js_prop routeData ''distance_km'' = None
                   then route_failed cfg (new_Error ''Invalid route data received'') w2
                   else
                     let w3 = dropRouteLine w2
                     in case route_coordinates w routeData of
                          None \<Rightarrow>
                            showStatus (Msg ''No route found - try different points or transport mode'')
                              ''error'' w3
                        | Some c \<Rightarrow>
                            (if swap_throws c
                             then route_failed cfg (TypeError ''Cannot read properties'') w3
                             else
                               let (i, w4) = addLayer Polyline None w3
                               in showStatus (RouteSummary (effective_mode transportModeValue) routeData)
                                    ''success'' (w4\<lparr>routeLine := Some i\<rparr>)))))"

section \<open>A freshly loaded page\<close>

text \<open>
  The fields as the constructors of \<open>TravelMateApp\<close>, \<open>ErrorHandler\<close>, \<open>APIClient\<close> and
  \<open>MapPlacesManager\<close> set them, in a browser with empty storage, given the network and the
  built-ins.
\<close>

definition fresh_page :: "(nat \<Rightarrow> nat \<times> fetch_outcome) \<Rightarrow> (payload \<Rightarrow> string) \<Rightarrow> (json option \<Rightarrow> string)
                           \<Rightarrow> (json \<Rightarrow> bool) \<Rightarrow> ((string \<times> json) list \<Rightarrow> string) \<Rightarrow> world" where
  "fresh_page net stringify str gz qs = \<lparr>
     currentUser = JNull,
     authToken = JNull,
     isAuthMode = LoginMode,
     markers = [],
     startPoint = JNull,
     endPoint = JNull,
     routeStartMarker = None,
     routeEndMarker = None,
     routeLine = None,
     errorLog = [],
     cache = Map.empty,
     addPlaceMode = False,
     clock = 0,
     storedToken = None,
     storedRateLimit = Map.empty,
     storedErrorLog = None,
     layers = [],
     nextLayer = 0,
     netlog = [],
     network = net,
     statusMessage = None,
     display = (\<lambda>i. []),
     disabled = (\<lambda>i. False),
     sidebarOpen = False,
     authModalActive = False,
     reloadRequested = False,
     JSON_stringify = stringify,
     js_String = str,
     js_greater_zero = gz,
     URLSearchParams_toString = qs \<rparr>"





text \<open>Stand-ins for the built-ins, enough to run the model on an example.\<close>

definition plain_stringify :: "payload \<Rightarrow> string" where
  "plain_stringify d = (case d of Plain JNull \<Rightarrow> ''null'' | Plain (JStr s) \<Rightarrow> s | _ \<Rightarrow> ''{}'')"

definition plain_String :: "json option \<Rightarrow> string" where
  "plain_String v = (case v of None \<Rightarrow> ''undefined'' | Some JNull \<Rightarrow> ''null'' | Some (JStr s) \<Rightarrow> s
                     | _ \<Rightarrow> ''[object Object]'')"

definition plain_greater_zero :: "json \<Rightarrow> bool" where
  "plain_greater_zero v =
     (case v of
        JStr s \<Rightarrow> s \<noteq> [] \<and> list_all (\<lambda>c. c \<in> set ''0123456789'') s \<and> \<not> list_all (\<lambda>c. c = CHR ''0'') s
      | _ \<Rightarrow> False)"

definition plain_query :: "(string \<times> json) list \<Rightarrow> string" where
  "plain_query ps = concat (map (\<lambda>(k, v). k @ ''=&'') ps)"

definition example_page :: "(nat \<Rightarrow> nat \<times> fetch_outcome) \<Rightarrow> world" where
  "example_page net = fresh_page net plain_stringify plain_String plain_greater_zero plain_query"

section \<open>Notions the properties are stated with\<close>

text \<open>A call made through the client after waiting \<open>delay\<close> milliseconds.\<close>

record api_call =
  delay :: nat
  call_method :: string
  call_endpoint :: string
  call_data :: payload
  call_headers :: "string \<rightharpoonup> string"

definition do_call :: "config \<Rightarrow> api_call \<Rightarrow> world \<Rightarrow> (js_error + json) \<times> world" where
  "do_call cfg c w =
     request cfg (call_method c) (call_endpoint c) (call_data c) (call_headers c) (elapse (delay c) w)"

fun run_calls :: "config \<Rightarrow> api_call list \<Rightarrow> world \<Rightarrow> (js_error + json) list \<times> world" where
  "run_calls cfg [] w = ([], w)"
| "run_calls cfg (c # cs) w =
     (let (r, w1) = do_call cfg c w;
          (rs, w2) = run_calls cfg cs w1
      in (r # rs, w2))"

text \<open>The rate-limit window of a category has elapsed: the next check starts a new one.\<close>

definition window_elapsed :: "config \<Rightarrow> operation \<Rightarrow> world \<Rightarrow> bool" where
  "window_elapsed cfg ty w =
     (60000 < int (clock w) -
        int (case storedRateLimit w (rate_limit_key cfg ty) of None \<Rightarrow> 0 | Some d \<Rightarrow> timestamp d))"



text \<open>
  The counter a rate-limit check compares with the limit: the stored one, or a new one at
  zero when there is none or its window has elapsed.
\<close>

definition current_window :: "config \<Rightarrow> operation \<Rightarrow> world \<Rightarrow> rate_data" where
  "current_window cfg ty w =
     (if window_elapsed cfg ty w then \<lparr>count = 0, timestamp = clock w\<rparr>
      else (case storedRateLimit w (rate_limit_key cfg ty) of
              None \<Rightarrow> \<lparr>count = 0, timestamp = 0\<rparr>
            | Some d \<Rightarrow> d))"

text \<open>
  The error log is within its size, newest first, and holds no entry from the future.
\<close>

definition log_inv :: "world \<Rightarrow> bool" where
  "log_inv w =
     (length (errorLog w) \<le> maxLogSize
      \<and> sorted_wrt (\<lambda>a b. ei_timestamp b \<le> ei_timestamp a) (errorLog w)
      \<and> (\<forall>e \<in> set (errorLog w). ei_timestamp e \<le> clock w))"



section \<open>Example inputs\<close>

definition ok_net :: "nat \<Rightarrow> nat \<times> fetch_outcome" where
  "ok_net k = (5, Response 200 ''OK'' (Some (JObj [])))"

definition search_call :: api_call where
  "search_call = \<lparr>delay = 100, call_method = ''GET'',
     call_endpoint = ''/locations/search?query=x'',
     call_data = Plain JNull, call_headers = Map.empty\<rparr>"

definition sample_entry :: errorInfo where
  "sample_entry = \<lparr>ei_timestamp = 7, ei_context = ''Search failed'', ei_message = ''HTTP 500: '',
     ei_type = ''Error''\<rparr>"

definition cached_world :: "nat \<Rightarrow> world" where
  "cached_world n = (example_page ok_net)\<lparr>clock := 70000,
     cache := [cacheKey (loadConfig Development) ''GET'' ''/locations/search?query=x'' (Plain JNull)
                 (example_page ok_net) \<mapsto> \<lparr>ce_data = JStr ''cached'', ce_timestamp = 69000\<rparr>],
     storedRateLimit := [rate_limit_key (loadConfig Development) Search
                           \<mapsto> \<lparr>count = n, timestamp = 69000\<rparr>]\<rparr>"

definition upload_form :: payload where
  "upload_form = FormData [(''name'', ''Fortress''), (''photo'', ''<binary>'')]"

definition near_limit_world :: world where
  "near_limit_world = (example_page ok_net)\<lparr>clock := 70000,
     storedRateLimit := [rate_limit_key (loadConfig Development) Search
                           \<mapsto> \<lparr>count = 9, timestamp = 69000\<rparr>]\<rparr>"








definition no_route_net :: "nat \<Rightarrow> nat \<times> fetch_outcome" where
  "no_route_net k = (5, Response 200 ''OK''
     (Some (JObj [(''distance_km'', JNum 0), (''duration_minutes'', JNum 0),
                  (''geometry'', JObj [(''coordinates'', JArr [])])])))"

definition route_drawn :: world where
  "route_drawn = (example_page no_route_net)\<lparr>
     clock := 70000,
     currentUser := JObj [(''name'', JStr ''Ana'')],
     startPoint := JObj [(''latitude'', JNum 44.8176), (''longitude'', JNum 20.4633), (''name'', JStr ''Start'')],
     endPoint := JObj [(''latitude'', JNum 45.2671), (''longitude'', JNum 19.8335), (''name'', JStr ''End'')],
     routeStartMarker := Some 0,
     routeEndMarker := Some 1,
     routeLine := Some 2,
     layers := [\<lparr>layer_id = 0, kind = Marker, placeData = None\<rparr>,
                \<lparr>layer_id = 1, kind = Marker, placeData = None\<rparr>,
                \<lparr>layer_id = 2, kind = Polyline, placeData = None\<rparr>],
     nextLayer := 3\<rparr>"

definition down_net :: "nat \<Rightarrow> nat \<times> fetch_outcome" where
  "down_net k = (5, NetworkError ''Failed to fetch'')"

definition expired_net :: "nat \<Rightarrow> nat \<times> fetch_outcome" where
  "expired_net k = (5, Response 401 ''Unauthorized'' (Some (JObj [(''detail'', JStr ''Could not validate credentials'')])))"

definition returning_visitor :: world where
  "returning_visitor = (example_page expired_net)\<lparr>clock := 70000, storedToken := Some ''t0k''\<rparr>"


section \<open>Evaluation rules for the examples\<close>

lemmas client_eval =
  request_def Let_def do_call_def search_call_def checkRateLimit_def elapse_def
  rate_limit_key_def getStorageKey_def example_page_def fresh_page_def send_def
  fetch_abortable_def request_of_def ok_net_def cacheKey_def getEndpoint_def plain_stringify_def
  build_headers_def build_body_def toUpperCase_def rate_limit_error_def new_Error_def
  window_elapsed_def getOperationType_def api_get_def get_url_def api_post_def plain_query_def
  plain_String_def to_string_def TypeError_def

section \<open>The API client and the rate limiter\<close>

lemma send_not_rate_limited: "fst (send cfg m ep d hs w) \<noteq> Inl (rate_limit_error ty)"
  unfolding send_def Let_def rate_limit_error_def new_Error_def TypeError_def
  by (auto split: prod.splits option.splits fetch_outcome.splits)

lemma send_clock: "clock w \<le> clock (snd (send cfg m ep d hs w))"
  unfolding send_def Let_def fetch_abortable_def
  by (auto split: prod.splits option.splits fetch_outcome.splits)

lemma send_rl: "storedRateLimit (snd (send cfg m ep d hs w)) = storedRateLimit w"
  unfolding send_def Let_def fetch_abortable_def
  by (auto split: prod.splits option.splits fetch_outcome.splits)

lemma checkRateLimit_clock: "clock (snd (checkRateLimit cfg ty w)) = clock w"
  unfolding checkRateLimit_def Let_def by simp

lemma request_limited:
  assumes "fst (checkRateLimit cfg (getOperationType ep) w) = False"
  shows "request cfg m ep d hs w = (Inl (rate_limit_error (getOperationType ep)), w)"
  using assms unfolding request_def checkRateLimit_def Let_def
  by (auto split: prod.splits option.splits if_splits)

lemma request_allowed:
  assumes "fst (checkRateLimit cfg (getOperationType ep) w) = True"
  shows "fst (request cfg m ep d hs w) \<noteq> Inl (rate_limit_error ty)"
    and "storedRateLimit (snd (request cfg m ep d hs w)) = storedRateLimit (snd (checkRateLimit cfg (getOperationType ep) w))"
    and "clock w \<le> clock (snd (request cfg m ep d hs w))"
proof -
  obtain w1 where c: "checkRateLimit cfg (getOperationType ep) w = (True, w1)"
    using assms by (metis prod.collapse)
  have cl: "clock w1 = clock w" using checkRateLimit_clock[of cfg "getOperationType ep" w] c by simp
  show "fst (request cfg m ep d hs w) \<noteq> Inl (rate_limit_error ty)"
    unfolding request_def Let_def c using send_not_rate_limited
    by (auto split: option.splits)
  show "storedRateLimit (snd (request cfg m ep d hs w)) = storedRateLimit (snd (checkRateLimit cfg (getOperationType ep) w))"
    unfolding request_def Let_def c using send_rl
    by (auto split: option.splits)
  show "clock w \<le> clock (snd (request cfg m ep d hs w))"
    unfolding request_def Let_def c using send_clock[of w1] cl
    by (auto split: option.splits)
qed

lemma request_clock: "clock w \<le> clock (snd (request cfg m ep d hs w))"
  by (cases "fst (checkRateLimit cfg (getOperationType ep) w)")
     (simp_all add: request_allowed(3) request_limited)

lemma crl_pass:
  assumes "RATE_LIMIT cfg ty = Some L" "storedRateLimit w (rate_limit_key cfg ty) = Some d"
    "int (clock w) - int (timestamp d) \<le> 60000" "count d < L"
  shows "checkRateLimit cfg ty w =
    (True, w\<lparr>storedRateLimit := (storedRateLimit w)(rate_limit_key cfg ty \<mapsto> d\<lparr>count := count d + 1\<rparr>)\<rparr>)"
  using assms unfolding checkRateLimit_def Let_def by simp

lemma crl_fail:
  assumes "RATE_LIMIT cfg ty = Some L" "storedRateLimit w (rate_limit_key cfg ty) = Some d"
    "int (clock w) - int (timestamp d) \<le> 60000" "L \<le> count d"
  shows "checkRateLimit cfg ty w = (False, w)"
  using assms unfolding checkRateLimit_def Let_def by simp

lemma crl_reset:
  assumes "RATE_LIMIT cfg ty = Some L" "window_elapsed cfg ty w" "0 < L"
  shows "checkRateLimit cfg ty w =
    (True, w\<lparr>storedRateLimit := (storedRateLimit w)(rate_limit_key cfg ty \<mapsto> \<lparr>count = 1, timestamp = clock w\<rparr>)\<rparr>)"
proof (cases "storedRateLimit w (rate_limit_key cfg ty)")
  case None
  then show ?thesis using assms unfolding checkRateLimit_def Let_def window_elapsed_def by simp
next
  case (Some d)
  then show ?thesis using assms unfolding checkRateLimit_def Let_def window_elapsed_def by simp
qed

lemma crl_reset0:
  assumes "RATE_LIMIT cfg ty = Some 0"
  shows "checkRateLimit cfg ty w = (False, w)"
  using assms unfolding checkRateLimit_def Let_def
  by simp

lemma crl_unlimited:
  assumes "RATE_LIMIT cfg ty = None"
  shows "fst (checkRateLimit cfg ty w) = True"
  using assms unfolding checkRateLimit_def Let_def by simp

lemma do_call_clock: "clock w + delay c \<le> clock (snd (do_call cfg c w))"
  unfolding do_call_def using request_clock[of "elapse (delay c) w"] by (simp add: elapse_def)

lemma run_calls_Cons:
  "fst (run_calls cfg (c # cs) w) = fst (do_call cfg c w) # fst (run_calls cfg cs (snd (do_call cfg c w)))"
  "snd (run_calls cfg (c # cs) w) = snd (run_calls cfg cs (snd (do_call cfg c w)))"
  by (simp_all add: Let_def case_prod_unfold)

lemma run_calls_clock: "clock w \<le> clock (snd (run_calls cfg cs w))"
proof (induction cs arbitrary: w)
  case Nil
  then show ?case by simp
next
  case (Cons c cs)
  have "clock w \<le> clock (snd (do_call cfg c w))" using do_call_clock[of w c cfg] by simp
  moreover have "clock (snd (do_call cfg c w)) \<le> clock (snd (run_calls cfg cs (snd (do_call cfg c w))))"
    by (rule Cons.IH)
  ultimately show ?case unfolding run_calls_Cons by simp
qed

lemma run_calls_append:
  "fst (run_calls cfg (xs @ ys) w) = fst (run_calls cfg xs w) @ fst (run_calls cfg ys (snd (run_calls cfg xs w)))"
  "snd (run_calls cfg (xs @ ys) w) = snd (run_calls cfg ys (snd (run_calls cfg xs w)))"
  by (induction xs arbitrary: w) (simp_all add: run_calls_Cons del: run_calls.simps(2))

lemma run_within:
  assumes "RATE_LIMIT cfg ty = Some L"
    and "\<forall>c \<in> set cs. getOperationType (call_endpoint c) = ty"
    and "storedRateLimit w (rate_limit_key cfg ty) = Some \<lparr>count = n, timestamp = t0\<rparr>"
    and "n + length cs \<le> L"
    and "clock (snd (run_calls cfg cs w)) \<le> t0 + 60000"
  shows "(\<forall>r \<in> set (fst (run_calls cfg cs w)). r \<noteq> Inl (rate_limit_error ty))
       \<and> storedRateLimit (snd (run_calls cfg cs w)) (rate_limit_key cfg ty)
           = Some \<lparr>count = n + length cs, timestamp = t0\<rparr>"
  using assms(2-5)
proof (induction cs arbitrary: w n)
  case Nil
  then show ?case by simp
next
  case (Cons c cs)
  let ?w0 = "elapse (delay c) w"
  let ?w1 = "snd (do_call cfg c w)"
  let ?r = "fst (do_call cfg c w)"
  have ty: "getOperationType (call_endpoint c) = ty" using Cons.prems(1) by simp
  have fin: "clock (snd (run_calls cfg cs ?w1)) \<le> t0 + 60000"
    using Cons.prems(4) unfolding run_calls_Cons .
  have "clock ?w1 \<le> clock (snd (run_calls cfg cs ?w1))" by (rule run_calls_clock)
  moreover have r1: "clock ?w0 \<le> clock ?w1"
    using request_clock[of ?w0 cfg "call_method c" "call_endpoint c" "call_data c" "call_headers c"]
    by (simp add: do_call_def)
  ultimately have in_window: "int (clock ?w0) - int t0 \<le> 60000" using fin by linarith
  have st: "storedRateLimit ?w0 (rate_limit_key cfg ty) = Some \<lparr>count = n, timestamp = t0\<rparr>"
    using Cons.prems(2) by (simp add: elapse_def)
  have lt: "n < L" using Cons.prems(3) by simp
  have chk: "checkRateLimit cfg ty ?w0 =
     (True, ?w0\<lparr>storedRateLimit := (storedRateLimit ?w0)(rate_limit_key cfg ty \<mapsto> \<lparr>count = n + 1, timestamp = t0\<rparr>)\<rparr>)"
    using crl_pass[OF assms(1) st] in_window lt by simp
  then have pass: "fst (checkRateLimit cfg (getOperationType (call_endpoint c)) ?w0) = True"
    using ty by simp
  have rne: "?r \<noteq> Inl (rate_limit_error ty)"
    using request_allowed(1)[OF pass] by (simp add: do_call_def)
  have st1: "storedRateLimit ?w1 (rate_limit_key cfg ty) = Some \<lparr>count = Suc n, timestamp = t0\<rparr>"
    using request_allowed(2)[OF pass] chk ty by (simp add: do_call_def)
  have len: "Suc n + length cs \<le> L" using Cons.prems(3) by simp
  have cat: "\<forall>c \<in> set cs. getOperationType (call_endpoint c) = ty" using Cons.prems(1) by simp
  have IH: "(\<forall>r \<in> set (fst (run_calls cfg cs ?w1)). r \<noteq> Inl (rate_limit_error ty))
       \<and> storedRateLimit (snd (run_calls cfg cs ?w1)) (rate_limit_key cfg ty)
           = Some \<lparr>count = Suc n + length cs, timestamp = t0\<rparr>"
    by (rule Cons.IH[OF cat st1 len fin])
  show ?case unfolding run_calls_Cons using IH rne by simp
qed

lemma run_calls_length: "length (fst (run_calls cfg cs w)) = length cs"
  by (induction cs arbitrary: w) (simp_all add: run_calls_Cons del: run_calls.simps(2))

lemma run_unlimited:
  assumes "RATE_LIMIT cfg ty = None"
    and "\<forall>c \<in> set cs. getOperationType (call_endpoint c) = ty"
  shows "\<forall>r \<in> set (fst (run_calls cfg cs w)). r \<noteq> Inl (rate_limit_error ty)"
  using assms(2)
proof (induction cs arbitrary: w)
  case Nil
  then show ?case by simp
next
  case (Cons c cs)
  have "fst (checkRateLimit cfg (getOperationType (call_endpoint c)) (elapse (delay c) w)) = True"
    using crl_unlimited[OF assms(1)] Cons.prems by simp
  then have "fst (do_call cfg c w) \<noteq> Inl (rate_limit_error ty)"
    unfolding do_call_def by (rule request_allowed(1))
  moreover have "\<forall>r \<in> set (fst (run_calls cfg cs (snd (do_call cfg c w)))). r \<noteq> Inl (rate_limit_error ty)"
    using Cons.IH Cons.prems by simp
  ultimately show ?case unfolding run_calls_Cons by simp
qed

lemma window_calls_aux:
  assumes lim: "RATE_LIMIT cfg ty = Some L"
    and cat: "\<forall>c \<in> set cs. getOperationType (call_endpoint c) = ty"
    and len: "length cs = L + 1"
    and fresh: "window_elapsed cfg ty (elapse (delay (hd cs)) w)"
    and within: "clock (snd (run_calls cfg cs w)) \<le> clock w + delay (hd cs) + 60000"
  shows "(\<forall>i < L. fst (run_calls cfg cs w) ! i \<noteq> Inl (rate_limit_error ty))
       \<and> fst (run_calls cfg cs w) ! L = Inl (rate_limit_error ty)
       \<and> netlog (snd (run_calls cfg cs w)) = netlog (snd (run_calls cfg (butlast cs) w))"
proof -
  obtain c0 rest where cs: "cs = c0 # rest" using len by (cases cs) auto
  let ?w0 = "elapse (delay c0) w"
  let ?t0 = "clock w + delay c0"
  have ty0: "getOperationType (call_endpoint c0) = ty" using cat cs by simp
  have fresh0: "window_elapsed cfg ty ?w0" using fresh cs by simp
  show ?thesis
  proof (cases "L = 0")
    case True
    then have rest: "rest = []" using len cs by simp
    have "checkRateLimit cfg ty ?w0 = (False, ?w0)" using crl_reset0 lim True by simp
    then have "request cfg (call_method c0) (call_endpoint c0) (call_data c0) (call_headers c0) ?w0
                = (Inl (rate_limit_error ty), ?w0)"
      using request_limited[of cfg "call_endpoint c0" ?w0] ty0 by simp
    then have "do_call cfg c0 w = (Inl (rate_limit_error ty), ?w0)" by (simp add: do_call_def)
    then show ?thesis using True cs rest by (simp add: elapse_def)
  next
    case False
    then have Lpos: "0 < L" by simp
    from len cs Lpos obtain mid lst where rest: "rest = mid @ [lst]"
      by (cases rest rule: rev_cases) auto
    have lmid: "length mid = L - 1" using len cs rest by simp
    let ?w1 = "snd (do_call cfg c0 w)"
    let ?w2 = "snd (run_calls cfg mid ?w1)"
    let ?w3 = "elapse (delay lst) ?w2"
    have chk0: "checkRateLimit cfg ty ?w0 =
       (True, ?w0\<lparr>storedRateLimit := (storedRateLimit ?w0)(rate_limit_key cfg ty \<mapsto> \<lparr>count = 1, timestamp = clock ?w0\<rparr>)\<rparr>)"
      by (rule crl_reset[OF lim fresh0 Lpos])
    then have pass0: "fst (checkRateLimit cfg (getOperationType (call_endpoint c0)) ?w0) = True"
      using ty0 by simp
    have r0: "fst (do_call cfg c0 w) \<noteq> Inl (rate_limit_error ty)"
      unfolding do_call_def by (rule request_allowed(1)[OF pass0])
    have st1: "storedRateLimit ?w1 (rate_limit_key cfg ty) = Some \<lparr>count = 1, timestamp = ?t0\<rparr>"
      using request_allowed(2)[OF pass0] chk0 ty0 by (simp add: do_call_def elapse_def)
    have fin_eq: "snd (run_calls cfg cs w) = snd (do_call cfg lst ?w2)"
      unfolding cs rest run_calls_Cons run_calls_append by simp
    have c3: "clock ?w3 \<le> clock (snd (do_call cfg lst ?w2))"
      unfolding do_call_def by (rule request_clock)
    then have c3': "clock ?w3 \<le> ?t0 + 60000" using within fin_eq cs by simp
    have "clock ?w2 \<le> clock ?w3" by (simp add: elapse_def)
    then have c2: "clock ?w2 \<le> ?t0 + 60000" using c3' by linarith
    have catm: "\<forall>c \<in> set mid. getOperationType (call_endpoint c) = ty" using cat cs rest by simp
    have tyl: "getOperationType (call_endpoint lst) = ty" using cat cs rest by simp
    have lm: "1 + length mid \<le> L" using lmid Lpos by simp
    have mid_ok: "(\<forall>r \<in> set (fst (run_calls cfg mid ?w1)). r \<noteq> Inl (rate_limit_error ty))
       \<and> storedRateLimit ?w2 (rate_limit_key cfg ty) = Some \<lparr>count = 1 + length mid, timestamp = ?t0\<rparr>"
      by (rule run_within[OF lim catm st1 lm c2])
    then have st3: "storedRateLimit ?w3 (rate_limit_key cfg ty) = Some \<lparr>count = L, timestamp = ?t0\<rparr>"
      using lmid Lpos by (simp add: elapse_def)
    have "checkRateLimit cfg ty ?w3 = (False, ?w3)"
      using crl_fail[OF lim st3] c3' by simp
    then have "request cfg (call_method lst) (call_endpoint lst) (call_data lst) (call_headers lst) ?w3
                = (Inl (rate_limit_error ty), ?w3)"
      using request_limited[of cfg "call_endpoint lst" ?w3] tyl by simp
    then have last_call: "do_call cfg lst ?w2 = (Inl (rate_limit_error ty), ?w3)"
      by (simp add: do_call_def)
    have res: "fst (run_calls cfg cs w)
        = fst (do_call cfg c0 w) # fst (run_calls cfg mid ?w1) @ [Inl (rate_limit_error ty)]"
      unfolding cs rest run_calls_Cons run_calls_append using last_call by simp
    have lres: "length (fst (run_calls cfg mid ?w1)) = L - 1" using run_calls_length lmid by simp
    have first_ok: "\<forall>i < L. fst (run_calls cfg cs w) ! i \<noteq> Inl (rate_limit_error ty)"
    proof (intro allI impI)
      fix i assume "i < L"
      show "fst (run_calls cfg cs w) ! i \<noteq> Inl (rate_limit_error ty)"
      proof (cases i)
        case 0
        then show ?thesis using res r0 by simp
      next
        case (Suc j)
        then have "j < L - 1" using \<open>i < L\<close> by simp
        then have "fst (run_calls cfg mid ?w1) ! j \<in> set (fst (run_calls cfg mid ?w1))"
          using lres by simp
        then show ?thesis using res Suc mid_ok \<open>j < L - 1\<close> lres by (simp add: nth_append)
      qed
    qed
    have last_bad: "fst (run_calls cfg cs w) ! L = Inl (rate_limit_error ty)"
      using res lres Lpos by (cases L) (simp_all add: nth_append)
    have bl: "butlast cs = c0 # mid" using cs rest by simp
    have "netlog (snd (run_calls cfg cs w)) = netlog ?w2"
      using fin_eq last_call by (simp add: elapse_def)
    moreover have "snd (run_calls cfg (butlast cs) w) = ?w2"
      unfolding bl run_calls_Cons by simp
    ultimately show ?thesis using first_ok last_bad by simp
  qed
qed

text \<open>
  C1, as the code has it. Take a category with a configured limit \<open>L\<close> (in every
  environment these are \<open>search\<close> and \<open>routes\<close>), and \<open>L + 1\<close> calls of that category
  made through the client, the first of which opens a new window and all of which are over
  within 60 seconds of the first. Then none of the first \<open>L\<close> calls fails with the
  rate-limit error, the \<open>(L + 1)\<close>-th does, and it adds no request to the network log.
  Once the window has elapsed, the next check passes and the stored counter is 1: the
  count restarted from zero and this call was counted. The \<open>general\<close> category has no
  configured limit in any environment, and a call of a category without a limit never fails
  with the rate-limit error.
\<close>

theorem rate_limit_window:
  assumes "RATE_LIMIT cfg ty = Some L"
    and "\<forall>c \<in> set cs. getOperationType (call_endpoint c) = ty"
    and "length cs = L + 1"
    and "window_elapsed cfg ty (elapse (delay (hd cs)) w)"
    and "clock (snd (run_calls cfg cs w)) \<le> clock w + delay (hd cs) + 60000"
  shows "(\<forall>i < L. fst (run_calls cfg cs w) ! i \<noteq> Inl (rate_limit_error ty))
       \<and> fst (run_calls cfg cs w) ! L = Inl (rate_limit_error ty)
       \<and> netlog (snd (run_calls cfg cs w)) = netlog (snd (run_calls cfg (butlast cs) w))
       \<and> (\<forall>w'. window_elapsed cfg ty w' \<longrightarrow> 0 < L \<longrightarrow>
             fst (checkRateLimit cfg ty w')
             \<and> storedRateLimit (snd (checkRateLimit cfg ty w')) (rate_limit_key cfg ty)
                 = Some \<lparr>count = 1, timestamp = clock w'\<rparr>)
       \<and> (\<forall>env. RATE_LIMIT (loadConfig env) Search \<noteq> None
                \<and> RATE_LIMIT (loadConfig env) Routes \<noteq> None
                \<and> RATE_LIMIT (loadConfig env) General = None)
       \<and> (\<forall>cfg' ty' cs' w'. RATE_LIMIT cfg' ty' = None \<longrightarrow>
             (\<forall>c \<in> set cs'. getOperationType (call_endpoint c) = ty') \<longrightarrow>
             (\<forall>r \<in> set (fst (run_calls cfg' cs' w')). r \<noteq> Inl (rate_limit_error ty')))"
proof -
  have reset: "\<forall>w'. window_elapsed cfg ty w' \<longrightarrow> 0 < L \<longrightarrow>
             fst (checkRateLimit cfg ty w')
             \<and> storedRateLimit (snd (checkRateLimit cfg ty w')) (rate_limit_key cfg ty)
                 = Some \<lparr>count = 1, timestamp = clock w'\<rparr>"
    using crl_reset[OF assms(1)] by simp
  have envs: "\<forall>env. RATE_LIMIT (loadConfig env) Search \<noteq> None
                \<and> RATE_LIMIT (loadConfig env) Routes \<noteq> None
                \<and> RATE_LIMIT (loadConfig env) General = None"
  proof
    fix env show "RATE_LIMIT (loadConfig env) Search \<noteq> None
                \<and> RATE_LIMIT (loadConfig env) Routes \<noteq> None
                \<and> RATE_LIMIT (loadConfig env) General = None"
      by (cases env) simp_all
  qed
  have unl: "\<forall>cfg' ty' cs' w'. RATE_LIMIT cfg' ty' = None \<longrightarrow>
             (\<forall>c \<in> set cs'. getOperationType (call_endpoint c) = ty') \<longrightarrow>
             (\<forall>r \<in> set (fst (run_calls cfg' cs' w')). r \<noteq> Inl (rate_limit_error ty'))"
    using run_unlimited by blast
  show ?thesis
    using window_calls_aux[OF assms] reset envs unl by blast
qed

theorem rate_limit_window_witness:
  "fst (run_calls (loadConfig Development) (replicate 11 search_call)
          ((example_page ok_net)\<lparr>clock := 70000\<rparr>)) ! 0 \<noteq> Inl (rate_limit_error Search)
   \<and> fst (run_calls (loadConfig Development) (replicate 11 search_call)
          ((example_page ok_net)\<lparr>clock := 70000\<rparr>)) ! 9 \<noteq> Inl (rate_limit_error Search)
   \<and> fst (run_calls (loadConfig Development) (replicate 11 search_call)
             ((example_page ok_net)\<lparr>clock := 70000\<rparr>)) ! 10 = Inl (rate_limit_error Search)"
proof -
  let ?cs = "[search_call, search_call, search_call, search_call, search_call, search_call,
              search_call, search_call, search_call, search_call, search_call]"
  let ?w = "(example_page ok_net)\<lparr>clock := 70000\<rparr>"
  have r: "replicate 11 search_call = ?cs" by (simp add: numeral_eq_Suc)
  have h1: "RATE_LIMIT (loadConfig Development) Search = Some 10" by simp
  have h2: "\<forall>c \<in> set ?cs. getOperationType (call_endpoint c) = Search"
    by (simp add: search_call_def getOperationType_def)
  have h3: "length ?cs = 10 + 1" by simp
  have h4: "window_elapsed (loadConfig Development) Search (elapse (delay (hd ?cs)) ?w)"
    by (simp add: client_eval)
  have h5: "clock (snd (run_calls (loadConfig Development) ?cs ?w)) \<le> clock ?w + delay (hd ?cs) + 60000"
    by (simp add: client_eval)
  have "0 < (10::nat)" "9 < (10::nat)" by simp_all
  then show ?thesis
    unfolding r using rate_limit_window[OF h1 h2 h3 h4 h5] by blast
qed

text \<open>
  The claim as it is written gives the \<open>general\<close> category a limit too. In the production
  configuration it has none, and with a thousand calls already counted in the running
  window the next \<open>general\<close> call still passes the check.
\<close>

theorem general_calls_not_limited:
  "RATE_LIMIT (loadConfig Production) General = None
   \<and> fst (checkRateLimit (loadConfig Production) General
        ((example_page ok_net)\<lparr>clock := 100000,
            storedRateLimit := [rate_limit_key (loadConfig Production) General
                                  \<mapsto> \<lparr>count = 1000, timestamp = 99000\<rparr>]\<rparr>))"
  by (simp add: checkRateLimit_def Let_def)

section \<open>The error log\<close>

lemma log_take:
  assumes "length (errorLog w) \<le> maxLogSize"
  shows "errorLog (ErrorHandler_log info w) = take maxLogSize (info # errorLog w)"
proof (cases "length (info # errorLog w) > maxLogSize")
  case True
  with assms have "length (errorLog w) = maxLogSize" by simp
  then have "butlast (info # errorLog w) = take maxLogSize (info # errorLog w)"
    by (metis butlast_conv_take length_Cons diff_Suc_1)
  with True show ?thesis unfolding ErrorHandler_log_def Let_def by simp
next
  case False
  then show ?thesis unfolding ErrorHandler_log_def Let_def by simp
qed

lemma handle_errorLog:
  "errorLog (handle cfg e c s w) = errorLog (ErrorHandler_log (entry_of e c w) w)"
  unfolding handle_def Let_def reportError_def fetch_nowait_def showUserFriendlyError_def
    showStatus_def entry_of_def
  by simp

lemma handle_stored:
  "storedErrorLog (handle cfg e c s w) = Some (take 10 (errorLog (handle cfg e c s w)))"
  unfolding handle_def Let_def reportError_def fetch_nowait_def showUserFriendlyError_def
    showStatus_def ErrorHandler_log_def
  by simp

lemma handle_clock: "clock (handle cfg e c s w) = clock w"
  unfolding handle_def Let_def reportError_def fetch_nowait_def showUserFriendlyError_def
    showStatus_def ErrorHandler_log_def
  by simp

lemma sorted_wrt_take: "sorted_wrt P xs \<Longrightarrow> sorted_wrt P (take n xs)"
  by (metis append_take_drop_id sorted_wrt_append)

text \<open>
  C10. Handling an error keeps the error log within 100 entries, newest first: the log
  becomes the new entry followed by the old ones, cut to 100, so the oldest is dropped
  when the log was full. The first ten entries of the new log are what is written to
  storage.
\<close>

theorem error_log_bounded:
  assumes "log_inv w"
  shows "log_inv (handle cfg e c s w)
       \<and> errorLog (handle cfg e c s w) = take 100 (entry_of e c w # errorLog w)
       \<and> length (errorLog (handle cfg e c s w)) \<le> 100
       \<and> storedErrorLog (handle cfg e c s w) = Some (take 10 (errorLog (handle cfg e c s w)))"
proof -
  from assms have len: "length (errorLog w) \<le> maxLogSize" by (simp add: log_inv_def)
  have eq: "errorLog (handle cfg e c s w) = take maxLogSize (entry_of e c w # errorLog w)"
    using log_take[OF len] handle_errorLog by simp
  have srt: "sorted_wrt (\<lambda>a b. ei_timestamp b \<le> ei_timestamp a) (entry_of e c w # errorLog w)"
    using assms by (auto simp: log_inv_def entry_of_def)
  have ts: "\<forall>x \<in> set (entry_of e c w # errorLog w). ei_timestamp x \<le> clock w"
    using assms by (auto simp: log_inv_def entry_of_def)
  have "log_inv (handle cfg e c s w)"
    unfolding log_inv_def eq handle_clock
    using sorted_wrt_take[OF srt] ts by (auto dest!: in_set_takeD)
  moreover have "length (errorLog (handle cfg e c s w)) \<le> 100"
    unfolding eq by (simp add: maxLogSize_def)
  ultimately show ?thesis using eq handle_stored by (simp add: maxLogSize_def)
qed

theorem error_log_bounded_witness:
  "log_inv ((example_page ok_net)\<lparr>clock := 9, errorLog := replicate 100 sample_entry\<rparr>)
   \<and> length (errorLog (handle (loadConfig Production) (new_Error ''HTTP 404: '') ''Search failed'' True
        ((example_page ok_net)\<lparr>clock := 9, errorLog := replicate 100 sample_entry\<rparr>))) \<le> 100
   \<and> hd (errorLog (handle (loadConfig Production) (new_Error ''HTTP 404: '') ''Search failed'' True
        ((example_page ok_net)\<lparr>clock := 9, errorLog := replicate 100 sample_entry\<rparr>)))
      = \<lparr>ei_timestamp = 9, ei_context = ''Search failed'', ei_message = ''HTTP 404: '',
          ei_type = ''Error''\<rparr>"
proof -
  let ?w = "(example_page ok_net)\<lparr>clock := 9, errorLog := replicate 100 sample_entry\<rparr>"
  have "sorted_wrt (\<lambda>a b. ei_timestamp b \<le> ei_timestamp a) (replicate n sample_entry)" for n
    by (induction n) simp_all
  then have h: "log_inv ?w"
    by (simp add: log_inv_def maxLogSize_def sample_entry_def)
  show ?thesis
    using h error_log_bounded[OF h, of "loadConfig Production" "new_Error ''HTTP 404: ''" "''Search failed''" True]
    by (simp add: entry_of_def new_Error_def)
qed

section \<open>Caching and request bodies\<close>

lemma crl_current:
  "checkRateLimit cfg ty w =
     (if (case RATE_LIMIT cfg ty of None \<Rightarrow> False | Some cap \<Rightarrow> cap \<le> count (current_window cfg ty w))
      then (False, w)
      else (True, w\<lparr>storedRateLimit := (storedRateLimit w)(rate_limit_key cfg ty \<mapsto>
               (current_window cfg ty w)\<lparr>count := count (current_window cfg ty w) + 1\<rparr>)\<rparr>))"
proof (cases "storedRateLimit w (rate_limit_key cfg ty)")
  case None
  then show ?thesis unfolding checkRateLimit_def current_window_def window_elapsed_def Let_def by simp
next
  case (Some d)
  then show ?thesis unfolding checkRateLimit_def current_window_def window_elapsed_def Let_def by simp
qed

lemma crl_frame:
  "cache (snd (checkRateLimit cfg ty w)) = cache w"
  "clock (snd (checkRateLimit cfg ty w)) = clock w"
  "netlog (snd (checkRateLimit cfg ty w)) = netlog w"
  "JSON_stringify (snd (checkRateLimit cfg ty w)) = JSON_stringify w"
  "authToken (snd (checkRateLimit cfg ty w)) = authToken w"
  "js_String (snd (checkRateLimit cfg ty w)) = js_String w"
  "network (snd (checkRateLimit cfg ty w)) = network w"
  unfolding crl_current by simp_all

lemma crl_fst:
  "fst (checkRateLimit cfg ty w) =
     (\<not> (case RATE_LIMIT cfg ty of None \<Rightarrow> False | Some cap \<Rightarrow> cap \<le> count (current_window cfg ty w)))"
  unfolding crl_current by simp

lemma request_cached:
  assumes "cache w (cacheKey cfg ''GET'' ep d w) = Some ce"
    and "int (clock w) - int (ce_timestamp ce) < int (CACHE_DURATION cfg)"
    and "fst (checkRateLimit cfg (getOperationType ep) w)"
  shows "request cfg ''GET'' ep d hs w = (Inr (ce_data ce), snd (checkRateLimit cfg (getOperationType ep) w))"
proof -
  obtain w1 where c: "checkRateLimit cfg (getOperationType ep) w = (True, w1)"
    using assms(3) by (metis prod.collapse)
  have f: "cache w1 = cache w" "clock w1 = clock w" "JSON_stringify w1 = JSON_stringify w"
    using crl_frame[of cfg "getOperationType ep" w] c by simp_all
  have k: "cacheKey cfg ''GET'' ep d w1 = cacheKey cfg ''GET'' ep d w" using f by (simp add: cacheKey_def)
  show ?thesis unfolding request_def Let_def c using assms(1,2) f k by simp
qed

lemma send_netlog:
  "netlog (snd (send cfg m ep d hs w)) = netlog w @ [request_of cfg m ep d hs w]"
  unfolding send_def Let_def fetch_abortable_def request_of_def
  by (simp split: prod.splits option.splits fetch_outcome.splits)

lemma send_frame:
  "JSON_stringify (snd (send cfg m ep d hs w)) = JSON_stringify w"
  "URLSearchParams_toString (snd (send cfg m ep d hs w)) = URLSearchParams_toString w"
  "authToken (snd (send cfg m ep d hs w)) = authToken w"
  "js_String (snd (send cfg m ep d hs w)) = js_String w"
  unfolding send_def Let_def fetch_abortable_def
  by (simp_all split: prod.splits option.splits fetch_outcome.splits)

lemma send_caches:
  assumes "fst (send cfg ''GET'' ep d hs w) = Inr v"
  shows "cache (snd (send cfg ''GET'' ep d hs w)) (cacheKey cfg ''GET'' ep d w)
           = Some \<lparr>ce_data = v, ce_timestamp = clock (snd (send cfg ''GET'' ep d hs w))\<rparr>"
  using assms unfolding send_def Let_def fetch_abortable_def
  by (simp split: prod.splits option.splits fetch_outcome.splits if_splits)

lemma request_uncached:
  assumes "fst (checkRateLimit cfg (getOperationType ep) w)"
    and "m \<noteq> ''GET'' \<or> cache w (cacheKey cfg m ep d w) = None
         \<or> (\<exists>ce. cache w (cacheKey cfg m ep d w) = Some ce
                 \<and> \<not> int (clock w) - int (ce_timestamp ce) < int (CACHE_DURATION cfg))"
  shows "request cfg m ep d hs w = send cfg m ep d hs (snd (checkRateLimit cfg (getOperationType ep) w))"
proof -
  obtain w1 where c: "checkRateLimit cfg (getOperationType ep) w = (True, w1)"
    using assms(1) by (metis prod.collapse)
  have f: "cache w1 = cache w" "clock w1 = clock w" "JSON_stringify w1 = JSON_stringify w"
    using crl_frame[of cfg "getOperationType ep" w] c by simp_all
  have k: "cacheKey cfg m ep d w1 = cacheKey cfg m ep d w" using f by (simp add: cacheKey_def)
  show ?thesis unfolding request_def Let_def c using assms(2) f k by (auto split: option.splits)
qed

lemma request_Inr_allowed:
  assumes "fst (request cfg m ep d hs w) = Inr v"
  shows "fst (checkRateLimit cfg (getOperationType ep) w)"
proof (rule ccontr)
  assume "\<not> fst (checkRateLimit cfg (getOperationType ep) w)"
  then have "request cfg m ep d hs w = (Inl (rate_limit_error (getOperationType ep)), w)"
    using request_limited by simp
  with assms show False by simp
qed

lemma elapse_frame:
  "cache (elapse n w) = cache w" "clock (elapse n w) = clock w + n" "netlog (elapse n w) = netlog w"
  "JSON_stringify (elapse n w) = JSON_stringify w"
  "URLSearchParams_toString (elapse n w) = URLSearchParams_toString w"
  by (simp_all add: elapse_def)

lemma to_string_frame: "js_String w' = js_String w \<Longrightarrow> to_string w' v = to_string w v"
  by (simp add: to_string_def split: option.splits json.splits)

lemma request_of_frame:
  assumes "JSON_stringify w' = JSON_stringify w" "authToken w' = authToken w" "js_String w' = js_String w"
  shows "request_of cfg m ep d hs w' = request_of cfg m ep d hs w"
proof -
  have "build_headers m d hs w' = build_headers m d hs w"
    using assms(2) to_string_frame[OF assms(3)]
    by (cases d) (simp_all add: build_headers_def Let_def)
  moreover have "build_body m d w' = build_body m d w"
    using assms(1) by (cases d) (simp_all add: build_body_def)
  ultimately show ?thesis by (simp add: request_of_def)
qed

lemma repeated_get_aux:
  assumes fresh: "cache w (cacheKey cfg ''GET'' (get_url w ep ps) (Plain JNull) w) = None"
    and first: "api_get cfg ep ps w = (Inr v, w1)"
    and second: "fst (checkRateLimit cfg (getOperationType (get_url w ep ps)) (elapse d w1))"
  shows "netlog w1 = netlog w @ [request_of cfg ''GET'' (get_url w ep ps) (Plain JNull) Map.empty w]
       \<and> (d < CACHE_DURATION cfg \<longrightarrow>
             fst (api_get cfg ep ps (elapse d w1)) = Inr v
             \<and> netlog (snd (api_get cfg ep ps (elapse d w1))) = netlog w1)
       \<and> (CACHE_DURATION cfg \<le> d \<longrightarrow>
             length (netlog (snd (api_get cfg ep ps (elapse d w1)))) = length (netlog w) + 2)"
proof -
  let ?url = "get_url w ep ps"
  let ?ty = "getOperationType ?url"
  let ?wc = "snd (checkRateLimit cfg ?ty w)"
  let ?key = "cacheKey cfg ''GET'' ?url (Plain JNull) w"
  have r1: "request cfg ''GET'' ?url (Plain JNull) Map.empty w = (Inr v, w1)"
    using first by (simp add: api_get_def)
  then have "fst (request cfg ''GET'' ?url (Plain JNull) Map.empty w) = Inr v" by simp
  then have pass1: "fst (checkRateLimit cfg ?ty w)" by (rule request_Inr_allowed)
  have s1: "send cfg ''GET'' ?url (Plain JNull) Map.empty ?wc = (Inr v, w1)"
    using request_uncached[OF pass1, of "''GET''" "Plain JNull" Map.empty] fresh r1 by simp
  have kc: "cacheKey cfg ''GET'' ?url (Plain JNull) ?wc = ?key"
    using crl_frame(4)[of cfg ?ty w] by (simp add: cacheKey_def)
  have reqc: "request_of cfg ''GET'' ?url (Plain JNull) Map.empty ?wc
            = request_of cfg ''GET'' ?url (Plain JNull) Map.empty w"
    by (rule request_of_frame) (simp_all add: crl_frame)
  have n1: "netlog w1 = netlog w @ [request_of cfg ''GET'' ?url (Plain JNull) Map.empty w]"
    using send_netlog[of cfg "''GET''" ?url "Plain JNull" Map.empty ?wc] s1 reqc crl_frame(3)[of cfg ?ty w] by simp
  have c1: "cache w1 ?key = Some \<lparr>ce_data = v, ce_timestamp = clock w1\<rparr>"
    using send_caches[of cfg ?url "Plain JNull" Map.empty ?wc v] s1 kc by simp
  let ?w2 = "elapse d w1"
  have fr: "JSON_stringify w1 = JSON_stringify w" "URLSearchParams_toString w1 = URLSearchParams_toString w"
    using send_frame(1,2)[of cfg "''GET''" ?url "Plain JNull" Map.empty ?wc] s1
      crl_frame(4)[of cfg ?ty w]
    unfolding crl_current by (simp_all split: if_splits)
  have url2: "get_url ?w2 ep ps = ?url" using fr by (simp add: get_url_def elapse_def)
  have key2: "cacheKey cfg ''GET'' ?url (Plain JNull) ?w2 = ?key" using fr by (simp add: cacheKey_def elapse_def)
  have c2: "cache ?w2 (cacheKey cfg ''GET'' ?url (Plain JNull) ?w2) = Some \<lparr>ce_data = v, ce_timestamp = clock w1\<rparr>"
    using c1 key2 by (simp add: elapse_def)
  have age: "int (clock ?w2) - int (clock w1) = int d" by (simp add: elapse_def)
  have hit: "fst (api_get cfg ep ps ?w2) = Inr v \<and> netlog (snd (api_get cfg ep ps ?w2)) = netlog w1"
    if "d < CACHE_DURATION cfg"
  proof -
    have "request cfg ''GET'' ?url (Plain JNull) Map.empty ?w2 = (Inr v, snd (checkRateLimit cfg ?ty ?w2))"
      using request_cached[OF c2 _ second, of Map.empty] age that by simp
    then show ?thesis using crl_frame(3)[of cfg ?ty ?w2] by (simp add: api_get_def url2 elapse_frame)
  qed
  have miss: "length (netlog (snd (api_get cfg ep ps ?w2))) = length (netlog w) + 2"
    if "CACHE_DURATION cfg \<le> d"
  proof -
    have "request cfg ''GET'' ?url (Plain JNull) Map.empty ?w2
            = send cfg ''GET'' ?url (Plain JNull) Map.empty (snd (checkRateLimit cfg ?ty ?w2))"
      using request_uncached[OF second, of "''GET''" "Plain JNull" Map.empty] c2 age that by simp
    then have "netlog (snd (api_get cfg ep ps ?w2)) = netlog (snd (checkRateLimit cfg ?ty ?w2)) @
        [request_of cfg ''GET'' ?url (Plain JNull) Map.empty (snd (checkRateLimit cfg ?ty ?w2))]"
      using send_netlog by (simp add: api_get_def url2)
    then show ?thesis using crl_frame(3)[of cfg ?ty ?w2] n1 by (simp add: elapse_frame)
  qed
  show ?thesis using n1 hit miss by blast
qed

text \<open>
  C9. A \<open>GET\<close> whose answer is in the cache and still fresh goes through the
  rate-limit check first. When the check passes, the call returns the cached value, issues
  no request, and the stored counter of the category has grown by one. When the counter has
  reached the limit of the category, the call fails with the rate-limit error and leaves
  everything unchanged, although the cache holds the answer.
\<close>

theorem cached_get_counts:
  assumes "cache w (cacheKey cfg ''GET'' ep d w) = Some ce"
    and "int (clock w) - int (ce_timestamp ce) < int (CACHE_DURATION cfg)"
  shows "(fst (checkRateLimit cfg (getOperationType ep) w) \<longrightarrow>
            fst (request cfg ''GET'' ep d hs w) = Inr (ce_data ce)
          \<and> netlog (snd (request cfg ''GET'' ep d hs w)) = netlog w
          \<and> storedRateLimit (snd (request cfg ''GET'' ep d hs w)) (rate_limit_key cfg (getOperationType ep))
              = Some ((current_window cfg (getOperationType ep) w)
                        \<lparr>count := count (current_window cfg (getOperationType ep) w) + 1\<rparr>))
       \<and> (\<forall>L. RATE_LIMIT cfg (getOperationType ep) = Some L \<longrightarrow>
              L \<le> count (current_window cfg (getOperationType ep) w) \<longrightarrow>
              request cfg ''GET'' ep d hs w = (Inl (rate_limit_error (getOperationType ep)), w))"
proof -
  let ?ty = "getOperationType ep"
  have a: "fst (request cfg ''GET'' ep d hs w) = Inr (ce_data ce)
          \<and> netlog (snd (request cfg ''GET'' ep d hs w)) = netlog w
          \<and> storedRateLimit (snd (request cfg ''GET'' ep d hs w)) (rate_limit_key cfg ?ty)
              = Some ((current_window cfg ?ty w)\<lparr>count := count (current_window cfg ?ty w) + 1\<rparr>)"
    if p: "fst (checkRateLimit cfg ?ty w)"
  proof -
    have r: "request cfg ''GET'' ep d hs w = (Inr (ce_data ce), snd (checkRateLimit cfg ?ty w))"
      by (rule request_cached[OF assms p])
    have "storedRateLimit (snd (checkRateLimit cfg ?ty w)) (rate_limit_key cfg ?ty)
              = Some ((current_window cfg ?ty w)\<lparr>count := count (current_window cfg ?ty w) + 1\<rparr>)"
      using p unfolding crl_current by (simp split: if_splits)
    then show ?thesis using r crl_frame(3)[of cfg ?ty w] by simp
  qed
  have b: "request cfg ''GET'' ep d hs w = (Inl (rate_limit_error ?ty), w)"
    if "RATE_LIMIT cfg ?ty = Some L" "L \<le> count (current_window cfg ?ty w)" for L
  proof -
    have "fst (checkRateLimit cfg ?ty w) = False" using that by (simp add: crl_fst)
    then show ?thesis by (rule request_limited)
  qed
  show ?thesis using a b by blast
qed

lemma cached_world_hyps:
  "cache (cached_world n) (cacheKey (loadConfig Development) ''GET'' ''/locations/search?query=x'' (Plain JNull) (cached_world n))
      = Some \<lparr>ce_data = JStr ''cached'', ce_timestamp = 69000\<rparr>"
  "clock (cached_world n) = 70000"
  by (simp_all add: cached_world_def cacheKey_def example_page_def fresh_page_def)

text \<open>
  With the limit of 10 \<open>search\<close> calls reached, the cached search is refused; with 3
  counted, it is served from the cache and counted as the fourth.
\<close>

theorem cached_get_counts_witness:
  "request (loadConfig Development) ''GET'' ''/locations/search?query=x'' (Plain JNull) Map.empty
      (cached_world 10) = (Inl (rate_limit_error Search), cached_world 10)
   \<and> fst (request (loadConfig Development) ''GET'' ''/locations/search?query=x'' (Plain JNull) Map.empty
      (cached_world 3)) = Inr (JStr ''cached'')
   \<and> storedRateLimit (snd (request (loadConfig Development) ''GET'' ''/locations/search?query=x'' (Plain JNull) Map.empty
      (cached_world 3))) (rate_limit_key (loadConfig Development) Search) = Some \<lparr>count = 4, timestamp = 69000\<rparr>"
proof -
  let ?cfg = "loadConfig Development"
  let ?ep = "''/locations/search?query=x''"
  have ty: "getOperationType ?ep = Search" by (simp add: getOperationType_def)
  have fr: "int (clock (cached_world n)) - int (ce_timestamp \<lparr>ce_data = JStr ''cached'', ce_timestamp = 69000\<rparr>)
           < int (CACHE_DURATION ?cfg)" for n
    by (simp add: cached_world_hyps)
  have cw: "current_window ?cfg Search (cached_world n) = \<lparr>count = n, timestamp = 69000\<rparr>" for n
    by (simp add: current_window_def window_elapsed_def cached_world_def)
  have lim: "RATE_LIMIT ?cfg Search = Some 10" by simp
  have p3: "fst (checkRateLimit ?cfg Search (cached_world 3))"
    unfolding crl_fst cw lim by simp
  show ?thesis
    using cached_get_counts[OF cached_world_hyps(1)[of 10] fr[of 10], of Map.empty]
          cached_get_counts[OF cached_world_hyps(1)[of 3] fr[of 3], of Map.empty]
          p3 lim
    unfolding ty cw by (simp del: loadConfig.simps)
qed

text \<open>
  C2, as the code has it. Take a \<open>GET\<close> whose answer is not in the cache and that
  succeeds with the value \<open>v\<close>: it issues one request. Let \<open>d\<close> milliseconds pass between
  its end and an identical second call that passes the rate-limit check. If \<open>d\<close> is less
  than \<open>CACHE_DURATION\<close>, the second call returns \<open>v\<close> and issues no request; otherwise
  it issues a second one.
\<close>

theorem repeated_get:
  assumes "cache w (cacheKey cfg ''GET'' (get_url w ep ps) (Plain JNull) w) = None"
    and "fst (api_get cfg ep ps w) = Inr v"
    and "fst (checkRateLimit cfg (getOperationType (get_url w ep ps)) (elapse d (snd (api_get cfg ep ps w))))"
  shows "netlog (snd (api_get cfg ep ps w))
           = netlog w @ [request_of cfg ''GET'' (get_url w ep ps) (Plain JNull) Map.empty w]
       \<and> (d < CACHE_DURATION cfg \<longrightarrow>
             fst (api_get cfg ep ps (elapse d (snd (api_get cfg ep ps w)))) = Inr v
             \<and> netlog (snd (api_get cfg ep ps (elapse d (snd (api_get cfg ep ps w)))))
                 = netlog (snd (api_get cfg ep ps w)))
       \<and> (CACHE_DURATION cfg \<le> d \<longrightarrow>
             length (netlog (snd (api_get cfg ep ps (elapse d (snd (api_get cfg ep ps w))))))
               = length (netlog w) + 2)"
proof -
  have "api_get cfg ep ps w = (Inr v, snd (api_get cfg ep ps w))"
    using assms(2) by (metis prod.collapse)
  then show ?thesis by (rule repeated_get_aux[OF assms(1) _ assms(3)])
qed

text \<open>
  Two identical searches 100 ms apart in the development configuration: one request in
  all.
\<close>

theorem repeated_get_witness:
  "fst (api_get (loadConfig Development) ''/locations/search'' [(''query'', JStr ''x'')]
          (elapse 100 (snd (api_get (loadConfig Development) ''/locations/search'' [(''query'', JStr ''x'')]
             ((example_page ok_net)\<lparr>clock := 70000\<rparr>))))) = Inr (JObj [])
   \<and> length (netlog (snd (api_get (loadConfig Development) ''/locations/search'' [(''query'', JStr ''x'')]
          (elapse 100 (snd (api_get (loadConfig Development) ''/locations/search'' [(''query'', JStr ''x'')]
             ((example_page ok_net)\<lparr>clock := 70000\<rparr>))))))) = 1"
proof -
  let ?cfg = "loadConfig Development"
  let ?w = "(example_page ok_net)\<lparr>clock := 70000\<rparr>"
  let ?ps = "[(''query'', JStr ''x'')]"
  have h1: "cache ?w (cacheKey ?cfg ''GET'' (get_url ?w ''/locations/search'' ?ps) (Plain JNull) ?w) = None"
    by (simp add: client_eval)
  have h2: "fst (api_get ?cfg ''/locations/search'' ?ps ?w) = Inr (JObj [])"
    by (simp add: client_eval)
  have h3: "fst (checkRateLimit ?cfg (getOperationType (get_url ?w ''/locations/search'' ?ps))
              (elapse 100 (snd (api_get ?cfg ''/locations/search'' ?ps ?w))))"
    by (simp add: client_eval)
  have n0: "netlog ?w = []" by (simp add: example_page_def fresh_page_def)
  have "(100::nat) < CACHE_DURATION ?cfg" by simp
  then show ?thesis
    using repeated_get[OF h1 h2 h3] n0 by (simp del: loadConfig.simps)
qed

text \<open>
  The claim as it is written promises the stored value to every second call within
  \<open>CACHE_DURATION\<close>. With nine \<open>search\<close> calls already counted in the window, the first
  search succeeds and is cached, and the identical search 100 ms later fails with the
  rate-limit error.
\<close>

theorem second_get_rate_limited:
  "fst (api_get (loadConfig Development) ''/locations/search'' [(''query'', JStr ''x'')] near_limit_world)
     = Inr (JObj [])
   \<and> fst (api_get (loadConfig Development) ''/locations/search'' [(''query'', JStr ''x'')]
        (elapse 100 (snd (api_get (loadConfig Development) ''/locations/search'' [(''query'', JStr ''x'')]
           near_limit_world))))
     = Inl (rate_limit_error Search)"
  by (simp add: client_eval near_limit_world_def)

text \<open>
  C3, as the code has it. A call whose method is not \<open>GET\<close> and that passes the
  rate-limit check issues exactly one request. A \<open>FormData\<close> body is sent as it is and the
  request has no \<open>Content-Type\<close> header; a \<open>URLSearchParams\<close> body is sent as it is too,
  under the caller's \<open>Content-Type\<close> or else \<open>application/json\<close>; any other truthy value
  is sent as its \<open>JSON.stringify\<close> text under the same header; a falsy value (\<open>null\<close>, an
  empty string, zero, \<open>false\<close>) sends no body.
\<close>

theorem non_get_body:
  assumes "m \<noteq> ''GET''"
    and "fst (checkRateLimit cfg (getOperationType ep) w)"
  shows "netlog (snd (request cfg m ep data hs w)) = netlog w @ [request_of cfg m ep data hs w]
       \<and> req_body (request_of cfg m ep data hs w)
           = (case data of
                FormData fd \<Rightarrow> FormDataBody fd
              | URLSearchParams ps \<Rightarrow> ParamsBody ps
              | Plain j \<Rightarrow> if truthy j then TextBody (JSON_stringify w (Plain j)) else NoBody)
       \<and> req_headers (request_of cfg m ep data hs w) ''Content-Type''
           = (case data of
                FormData fd \<Rightarrow> None
              | _ \<Rightarrow> (case hs ''Content-Type'' of None \<Rightarrow> Some ''application/json'' | Some c \<Rightarrow> Some c))"
proof -
  let ?wc = "snd (checkRateLimit cfg (getOperationType ep) w)"
  have "request cfg m ep data hs w = send cfg m ep data hs ?wc"
    using request_uncached[OF assms(2)] assms(1) by simp
  moreover have "request_of cfg m ep data hs ?wc = request_of cfg m ep data hs w"
    by (rule request_of_frame) (simp_all add: crl_frame)
  ultimately have n: "netlog (snd (request cfg m ep data hs w)) = netlog w @ [request_of cfg m ep data hs w]"
    using send_netlog[of cfg m ep data hs ?wc] crl_frame(3)[of cfg "getOperationType ep" w] by simp
  have b: "req_body (request_of cfg m ep data hs w)
           = (case data of
                FormData fd \<Rightarrow> FormDataBody fd
              | URLSearchParams ps \<Rightarrow> ParamsBody ps
              | Plain j \<Rightarrow> if truthy j then TextBody (JSON_stringify w (Plain j)) else NoBody)"
    using assms(1) by (cases data) (simp_all add: request_of_def build_body_def)
  have h: "req_headers (request_of cfg m ep data hs w) ''Content-Type''
           = (case data of
                FormData fd \<Rightarrow> None
              | _ \<Rightarrow> (case hs ''Content-Type'' of None \<Rightarrow> Some ''application/json'' | Some c \<Rightarrow> Some c))"
    using assms(1)
    by (cases data) (simp_all add: request_of_def build_headers_def Let_def map_add_def split: option.splits)
  show ?thesis using n b h by simp
qed

text \<open>
  A multipart upload of a place.
\<close>

theorem non_get_body_witness:
  "req_body (last (netlog (snd (request (loadConfig Production) ''POST'' ''/profile/places'' upload_form
      Map.empty (example_page ok_net))))) = FormDataBody [(''name'', ''Fortress''), (''photo'', ''<binary>'')]
   \<and> req_headers (last (netlog (snd (request (loadConfig Production) ''POST'' ''/profile/places'' upload_form
      Map.empty (example_page ok_net))))) ''Content-Type'' = None"
proof -
  have h1: "''POST'' \<noteq> ''GET''" by simp
  have h2: "fst (checkRateLimit (loadConfig Production) (getOperationType ''/profile/places'') (example_page ok_net))"
    by (simp add: client_eval)
  show ?thesis
    using non_get_body[OF h1 h2, of upload_form Map.empty]
    by (simp add: upload_form_def del: loadConfig.simps)
qed

text \<open>
  The claim as it is written has every body that is not \<open>FormData\<close> sent as JSON. The
  login call passes \<open>URLSearchParams\<close>, and they are sent as they are, form-encoded.
\<close>

theorem form_encoded_body_not_json:
  "req_body (last (netlog (snd (request (loadConfig Production) ''POST'' ''/auth/login''
      (URLSearchParams [(''username'', ''a@b.c''), (''password'', ''secret'')])
      [''Content-Type'' \<mapsto> ''application/x-www-form-urlencoded''] (example_page ok_net)))))
     = ParamsBody [(''username'', ''a@b.c''), (''password'', ''secret'')]
   \<and> req_headers (last (netlog (snd (request (loadConfig Production) ''POST'' ''/auth/login''
      (URLSearchParams [(''username'', ''a@b.c''), (''password'', ''secret'')])
      [''Content-Type'' \<mapsto> ''application/x-www-form-urlencoded''] (example_page ok_net))))) ''Content-Type''
     = Some ''application/x-www-form-urlencoded''"
  by (simp add: client_eval)

section \<open>Place markers\<close>















section \<open>Route calculation failures\<close>

lemma crl_frame2:
  "startPoint (snd (checkRateLimit cfg ty w)) = startPoint w"
  "endPoint (snd (checkRateLimit cfg ty w)) = endPoint w"
  "routeLine (snd (checkRateLimit cfg ty w)) = routeLine w"
  "layers (snd (checkRateLimit cfg ty w)) = layers w"
  "currentUser (snd (checkRateLimit cfg ty w)) = currentUser w"
  "storedToken (snd (checkRateLimit cfg ty w)) = storedToken w"
  "addPlaceMode (snd (checkRateLimit cfg ty w)) = addPlaceMode w"
  "errorLog (snd (checkRateLimit cfg ty w)) = errorLog w"
  "statusMessage (snd (checkRateLimit cfg ty w)) = statusMessage w"
  unfolding crl_current by simp_all

lemma send_frame2:
  "startPoint (snd (send cfg m ep d hs w)) = startPoint w"
  "endPoint (snd (send cfg m ep d hs w)) = endPoint w"
  "routeLine (snd (send cfg m ep d hs w)) = routeLine w"
  "layers (snd (send cfg m ep d hs w)) = layers w"
  "currentUser (snd (send cfg m ep d hs w)) = currentUser w"
  "storedToken (snd (send cfg m ep d hs w)) = storedToken w"
  "addPlaceMode (snd (send cfg m ep d hs w)) = addPlaceMode w"
  "errorLog (snd (send cfg m ep d hs w)) = errorLog w"
  "statusMessage (snd (send cfg m ep d hs w)) = statusMessage w"
  unfolding send_def Let_def fetch_abortable_def
  by (simp_all split: prod.splits option.splits fetch_outcome.splits)

lemma request_cases:
  "request cfg m ep d hs w = (Inl (rate_limit_error (getOperationType ep)), w)
   \<or> (\<exists>v. request cfg m ep d hs w = (Inr v, snd (checkRateLimit cfg (getOperationType ep) w)))
   \<or> request cfg m ep d hs w = send cfg m ep d hs (snd (checkRateLimit cfg (getOperationType ep) w))"
proof (cases "fst (checkRateLimit cfg (getOperationType ep) w)")
  case False
  then show ?thesis using request_limited by simp
next
  case True
  then obtain w1 where c: "checkRateLimit cfg (getOperationType ep) w = (True, w1)"
    by (metis prod.collapse)
  show ?thesis unfolding request_def Let_def c by (simp split: option.splits)
qed

lemma request_frame2:
  "startPoint (snd (request cfg m ep d hs w)) = startPoint w"
  "endPoint (snd (request cfg m ep d hs w)) = endPoint w"
  "routeLine (snd (request cfg m ep d hs w)) = routeLine w"
  "layers (snd (request cfg m ep d hs w)) = layers w"
  "currentUser (snd (request cfg m ep d hs w)) = currentUser w"
  "storedToken (snd (request cfg m ep d hs w)) = storedToken w"
  "addPlaceMode (snd (request cfg m ep d hs w)) = addPlaceMode w"
  "errorLog (snd (request cfg m ep d hs w)) = errorLog w"
  "statusMessage (snd (request cfg m ep d hs w)) = statusMessage w"
  using request_cases[of cfg m ep d hs w]
  by (auto simp: crl_frame2 send_frame2)

lemma request_netlog_le:
  "length (netlog (snd (request cfg m ep d hs w))) \<le> length (netlog w) + 1"
  using request_cases[of cfg m ep d hs w]
  by (auto simp: crl_frame send_netlog)

lemma handle_frame2:
  "startPoint (handle cfg e c s w) = startPoint w"
  "endPoint (handle cfg e c s w) = endPoint w"
  "routeLine (handle cfg e c s w) = routeLine w"
  "layers (handle cfg e c s w) = layers w"
  "statusMessage (handle cfg e c True w) = Some (Msg (friendly_message e c), ''error'')"
  unfolding handle_def Let_def reportError_def fetch_nowait_def showUserFriendlyError_def
    showStatus_def ErrorHandler_log_def
  by simp_all

lemma dropRouteLine_simps:
  "routeLine (dropRouteLine w) = None"
  "startPoint (dropRouteLine w) = startPoint w"
  "endPoint (dropRouteLine w) = endPoint w"
  "statusMessage (dropRouteLine w) = statusMessage w"
  "routeLine w = Some i \<Longrightarrow> \<forall>l \<in> set (layers (dropRouteLine w)). layer_id l \<noteq> i"
  by (auto simp: dropRouteLine_def removeLayer_def split: option.splits)

lemma route_failed_simps:
  "routeLine (route_failed cfg e w) = None"
  "startPoint (route_failed cfg e w) = startPoint w"
  "endPoint (route_failed cfg e w) = endPoint w"
  "statusMessage (route_failed cfg e w) = Some (Msg (friendly_message e ''Route calculation failed''), ''error'')"
  "routeLine w = Some i \<Longrightarrow> \<forall>l \<in> set (layers (route_failed cfg e w)). layer_id l \<noteq> i"
  unfolding route_failed_def
  using dropRouteLine_simps(5)[of "handle cfg e ''Route calculation failed'' True w" i]
  by (simp_all add: dropRouteLine_simps handle_frame2)

lemma route_request_frame:
  "startPoint (snd (route_request cfg tmv w)) = startPoint w"
  "endPoint (snd (route_request cfg tmv w)) = endPoint w"
  "routeLine (snd (route_request cfg tmv w)) = routeLine w"
  "layers (snd (route_request cfg tmv w)) = layers w"
  unfolding route_request_def Let_def api_get_def
  by (simp_all add: request_frame2 showStatus_def)

text \<open>
  C5. Take a signed-in user with a start and an end point that both carry a latitude and
  a longitude, and let the call to the routing endpoint either fail (rate limit, timeout,
  HTTP error, network failure, unreadable body) or answer with data that has no route
  geometry. After \<open>calculateRealRoute\<close> no route line is set, a line that was drawn before
  is no longer on the map, the status message is one of type \<open>error\<close>, and the start and
  end points are what they were.
\<close>

theorem route_failure_clears_line:
  assumes "truthy (currentUser w)"
    and "truthy (startPoint w)" and "truthy (endPoint w)"
    and "\<not> point_incomplete (startPoint w)" and "\<not> point_incomplete (endPoint w)"
    and "case fst (route_request cfg tmv w) of Inl e \<Rightarrow> True | Inr rd \<Rightarrow> route_coordinates w rd = None"
  shows "routeLine (calculateRealRoute cfg tmv w) = None
       \<and> (\<forall>i. routeLine w = Some i \<longrightarrow>
             (\<forall>l \<in> set (layers (calculateRealRoute cfg tmv w)). layer_id l \<noteq> i))
       \<and> (\<exists>m. statusMessage (calculateRealRoute cfg tmv w) = Some (m, ''error''))
       \<and> startPoint (calculateRealRoute cfg tmv w) = startPoint w
       \<and> endPoint (calculateRealRoute cfg tmv w) = endPoint w"
proof -
  obtain r w2 where rr: "route_request cfg tmv w = (r, w2)" by (cases "route_request cfg tmv w")
  have fr: "startPoint w2 = startPoint w" "endPoint w2 = endPoint w" "routeLine w2 = routeLine w"
    using route_request_frame[of cfg tmv w] rr by simp_all
  let ?P = "\<lambda>w'. routeLine w' = None
       \<and> (\<forall>i. routeLine w = Some i \<longrightarrow> (\<forall>l \<in> set (layers w'). layer_id l \<noteq> i))
       \<and> (\<exists>m. statusMessage w' = Some (m, ''error''))
       \<and> startPoint w' = startPoint w
       \<and> endPoint w' = endPoint w"
  have failed: "?P (route_failed cfg e w2)" for e
    using route_failed_simps[where w=w2 and cfg=cfg and e=e] fr by simp
  have none: "?P (showStatus (Msg ''No route found - try different points or transport mode'') ''error''
                    (dropRouteLine w2))"
    using dropRouteLine_simps[where w=w2] fr by (simp add: showStatus_def)
  have "?P (calculateRealRoute cfg tmv w)"
  proof (cases r)
    case (Inl e)
    then have "calculateRealRoute cfg tmv w = route_failed cfg e w2"
      using assms(1-5) rr by (simp add: calculateRealRoute_def Let_def)
    then show ?thesis using failed by simp
  next
    case (Inr rd)
    then have nc: "route_coordinates w rd = None" using assms(6) rr by simp
    show ?thesis
    proof (cases "\<not> truthy rd \<or> js_prop rd ''distance_km'' = None")
      case True
      then have "calculateRealRoute cfg tmv w = route_failed cfg (new_Error ''Invalid route data received'') w2"
        using assms(1-5) rr Inr by (simp add: calculateRealRoute_def Let_def)
      then show ?thesis using failed by simp
    next
      case False
      then have "truthy rd" "js_prop rd ''distance_km'' \<noteq> None" by simp_all
      then have "calculateRealRoute cfg tmv w =
          showStatus (Msg ''No route found - try different points or transport mode'') ''error'' (dropRouteLine w2)"
        using assms(1-5) rr Inr nc by (auto simp add: calculateRealRoute_def Let_def)
      then show ?thesis using none by simp
    qed
  qed
  then show ?thesis .
qed

lemmas route_eval = route_request_def effective_mode_def showStatus_def field_def route_drawn_def
  no_route_net_def route_coordinates_def positive_length_def point_incomplete_def

text \<open>
  A drawn route, then a \<open>cycling\<close> request that the service answers with an empty
  geometry: the line is taken off the map, the two endpoint markers stay.
\<close>

theorem route_failure_clears_line_witness:
  "routeLine (calculateRealRoute (loadConfig Development) ''cycling'' route_drawn) = None
   \<and> map layer_id (layers (calculateRealRoute (loadConfig Development) ''cycling'' route_drawn)) = [0, 1]
   \<and> statusMessage (calculateRealRoute (loadConfig Development) ''cycling'' route_drawn)
        = Some (Msg ''No route found - try different points or transport mode'', ''error'')
   \<and> startPoint (calculateRealRoute (loadConfig Development) ''cycling'' route_drawn) = startPoint route_drawn"
proof -
  have h: "truthy (currentUser route_drawn)" "truthy (startPoint route_drawn)" "truthy (endPoint route_drawn)"
    "\<not> point_incomplete (startPoint route_drawn)" "\<not> point_incomplete (endPoint route_drawn)"
    by (simp_all add: route_drawn_def point_incomplete_def)
  have h6: "case fst (route_request (loadConfig Development) ''cycling'' route_drawn) of
              Inl e \<Rightarrow> True | Inr rd \<Rightarrow> route_coordinates route_drawn rd = None"
    by (simp add: route_eval client_eval)
  have ev: "map layer_id (layers (calculateRealRoute (loadConfig Development) ''cycling'' route_drawn)) = [0, 1]
     \<and> statusMessage (calculateRealRoute (loadConfig Development) ''cycling'' route_drawn)
        = Some (Msg ''No route found - try different points or transport mode'', ''error'')"
    by (simp add: calculateRealRoute_def route_eval client_eval dropRouteLine_def removeLayer_def)
  show ?thesis
    using route_failure_clears_line[OF h h6] ev by simp
qed

section \<open>Validation before the network\<close>

lemmas email_eval = validateEmail_def regex_test_def emailRegex_def Plus_def not_space_at_def
  is_space_def trim_def

text \<open>
  C6, as the code has it. Both handlers trim the e-mail field before they validate it.
  When the trimmed value does not match the pattern, \<open>handleLogin\<close> only shows the
  validation error, and \<open>handleRegister\<close> only shows a validation error (the one for the name
  when the name is too short, which is checked first); neither adds a request to the network
  log or changes anything else.
\<close>

theorem invalid_email_stops_before_network:
  assumes "\<not> validateEmail (trim email)"
  shows "handleLogin cfg email password w
           = showStatus (Msg ''Please enter a valid email address'') ''error'' w
       \<and> netlog (handleLogin cfg email password w) = netlog w
       \<and> handleRegister cfg name email password w
           = showStatus (Msg (if length (trim name) < 2 then ''Name must be at least 2 characters long''
                              else ''Please enter a valid email address'')) ''error'' w
       \<and> netlog (handleRegister cfg name email password w) = netlog w"
  using assms by (auto simp: handleLogin_def handleRegister_def Let_def showStatus_def)

text \<open>
  A value without an \<open>@\<close>.
\<close>

theorem invalid_email_stops_before_network_witness:
  "netlog (handleLogin (loadConfig Production) ''not-an-email'' ''secret'' (example_page ok_net)) = []
   \<and> statusMessage (handleLogin (loadConfig Production) ''not-an-email'' ''secret'' (example_page ok_net))
        = Some (Msg ''Please enter a valid email address'', ''error'')
   \<and> netlog (handleRegister (loadConfig Production) ''Ana'' ''not-an-email'' ''secret1'' (example_page ok_net)) = []"
proof -
  have h: "\<not> validateEmail (trim ''not-an-email'')" by (simp add: email_eval)
  show ?thesis
    using invalid_email_stops_before_network[OF h, of "loadConfig Production" "''secret''" "example_page ok_net"]
      invalid_email_stops_before_network[OF h, of "loadConfig Production" "''secret1''" "example_page ok_net" "''Ana''"]
    by (simp add: showStatus_def example_page_def fresh_page_def del: loadConfig.simps)
qed

text \<open>
  The claim as it is written speaks of every input that does not match the pattern. An
  input with a leading blank, or with a leading no-break space, does not match it, and
  after \<open>trim\<close> it does: the login call goes out.
\<close>

theorem padded_email_reaches_network:
  "\<not> validateEmail '' a@b.c''
   \<and> map req_url (netlog (handleLogin (loadConfig Development) '' a@b.c'' ''secret'' (example_page down_net)))
       = [''http://localhost:8088/auth/login'']
   \<and> \<not> validateEmail (CHR 0xA0 # ''a@b.c'')
   \<and> map req_url (netlog (handleLogin (loadConfig Development) (CHR 0xA0 # ''a@b.c'') ''secret''
         (example_page down_net)))
       = [''http://localhost:8088/auth/login'']"
  by (simp add: email_eval handleLogin_def client_eval showStatus_def down_net_def handle_def
      entry_of_def ErrorHandler_log_def showUserFriendlyError_def maxLogSize_def)

section \<open>Token validation at startup\<close>

lemma showGuestMode_simps:
  "fst (showGuestMode w) = (if addPlaceMode w then Inl (TypeError ''this.hideStatusMessage is not a function'') else Inr ())"
  "currentUser (snd (showGuestMode w)) = JNull"
  "authToken (snd (showGuestMode w)) = JNull"
  "storedToken (snd (showGuestMode w)) = storedToken w"
  "netlog (snd (showGuestMode w)) = netlog w"
  "addPlaceMode (snd (showGuestMode w)) = False"
  by (simp_all add: showGuestMode_def disableControls_def placesManager_disableControls_def
      Let_def set_disabled_def)

lemma api_get_frame:
  "storedToken (snd (api_get cfg ep ps w)) = storedToken w"
  "length (netlog (snd (api_get cfg ep ps w))) \<le> length (netlog w) + 1"
  unfolding api_get_def using request_netlog_le[of cfg "''GET''" "get_url w ep ps" "Plain JNull" Map.empty w]
  by (simp_all add: request_frame2)

lemma checkAuthStatus_token:
  assumes "storedToken w = Some t" "t \<noteq> []"
  shows "checkAuthStatus cfg w =
     (case validateToken cfg (w\<lparr>authToken := JStr t\<rparr>) of
        (Inl e, w2) \<Rightarrow> showGuestMode w2 | (Inr u, w2) \<Rightarrow> (Inr (), w2))"
proof -
  have t: "truthy (authToken (w\<lparr>authToken := JStr t\<rparr>))" using assms(2) by simp
  show ?thesis
    unfolding checkAuthStatus_def Let_def assms(1) option.case
    using t by (simp only: if_True)
qed

text \<open>
  C7. Let the stored token be a non-empty string and let the \<open>GET /auth/me\<close> of the
  startup check fail, in whatever way. Then \<open>checkAuthStatus\<close> ends without an error, with
  no current user, no token in memory and none in storage; the network log is the one the
  failed call left, so at most one request has been issued and none was repeated.
\<close>

theorem failed_validation_falls_back_to_guest:
  assumes "storedToken w = Some t" and "t \<noteq> []"
    and "fst (api_get cfg ''/auth/me'' [] (w\<lparr>authToken := JStr t\<rparr>)) = Inl e"
  shows "fst (checkAuthStatus cfg w) = Inr ()
       \<and> currentUser (snd (checkAuthStatus cfg w)) = JNull
       \<and> authToken (snd (checkAuthStatus cfg w)) = JNull
       \<and> storedToken (snd (checkAuthStatus cfg w)) = None
       \<and> netlog (snd (checkAuthStatus cfg w))
           = netlog (snd (api_get cfg ''/auth/me'' [] (w\<lparr>authToken := JStr t\<rparr>)))
       \<and> length (netlog (snd (checkAuthStatus cfg w))) \<le> length (netlog w) + 1"
proof -
  let ?w1 = "w\<lparr>authToken := JStr t\<rparr>"
  obtain wa where a: "api_get cfg ''/auth/me'' [] ?w1 = (Inl e, wa)"
    using assms(3) by (metis prod.collapse)
  have v: "validateToken cfg ?w1 = showGuestMode (wa\<lparr>storedToken := None\<rparr>)"
    using a by (simp add: validateToken_def)
  obtain r wb where sg: "showGuestMode (wa\<lparr>storedToken := None\<rparr>) = (r, wb)"
    by (cases "showGuestMode (wa\<lparr>storedToken := None\<rparr>)")
  have wb: "currentUser wb = JNull" "authToken wb = JNull" "storedToken wb = None"
    "netlog wb = netlog wa" "addPlaceMode wb = False"
    using showGuestMode_simps(2-6)[of "wa\<lparr>storedToken := None\<rparr>"] sg by simp_all
  obtain r' wc where sg': "showGuestMode wb = (r', wc)" by (cases "showGuestMode wb")
  have wc: "r' = Inr ()" "currentUser wc = JNull" "authToken wc = JNull"
    "storedToken wc = None" "netlog wc = netlog wa"
    using showGuestMode_simps[of wb] sg' wb by simp_all
  have len: "length (netlog wa) \<le> length (netlog w) + 1"
    using api_get_frame(2)[of cfg "''/auth/me''" "[]" ?w1] a by simp
  have c: "checkAuthStatus cfg w =
     (case r of Inl e \<Rightarrow> showGuestMode wb | Inr u \<Rightarrow> (Inr (), wb))"
    unfolding checkAuthStatus_token[OF assms(1,2)] v sg by (simp split: sum.splits)
  show ?thesis
  proof (cases r)
    case (Inl err)
    then have "checkAuthStatus cfg w = (Inr (), wc)" using c sg' wc(1) by simp
    then show ?thesis using wc a len by simp
  next
    case (Inr u)
    then have "checkAuthStatus cfg w = (Inr (), wb)" using c by simp
    then show ?thesis using wb a len by simp
  qed
qed

text \<open>
  A returning visitor whose token the backend rejects with 401.
\<close>

theorem failed_validation_falls_back_to_guest_witness:
  "currentUser (snd (checkAuthStatus (loadConfig Production) returning_visitor)) = JNull
   \<and> authToken (snd (checkAuthStatus (loadConfig Production) returning_visitor)) = JNull
   \<and> storedToken (snd (checkAuthStatus (loadConfig Production) returning_visitor)) = None
   \<and> map req_url (netlog (snd (checkAuthStatus (loadConfig Production) returning_visitor)))
       = [''https://api.travelmate.app/auth/me'']"
proof -
  have h1: "storedToken returning_visitor = Some ''t0k''" by (simp add: returning_visitor_def)
  have h2: "''t0k'' \<noteq> []" by simp
  have h3: "fst (api_get (loadConfig Production) ''/auth/me'' [] (returning_visitor\<lparr>authToken := JStr ''t0k''\<rparr>))
              = Inl (new_Error ''HTTP 401: Unauthorized'')"
    by (simp add: client_eval returning_visitor_def expired_net_def decimal.simps)
  have n: "map req_url (netlog (snd (api_get (loadConfig Production) ''/auth/me'' [] (returning_visitor\<lparr>authToken := JStr ''t0k''\<rparr>))))
       = [''https://api.travelmate.app/auth/me'']"
    by (simp add: client_eval returning_visitor_def expired_net_def)
  show ?thesis
    using failed_validation_falls_back_to_guest[OF h1 h2 h3] n by simp
qed

section \<open>Signing out\<close>








































end
